theory Spec2Isabelle
  imports Main "HOL-Library.Code_Target_Nat"
begin

section \<open>Python strings\<close>

text \<open>
  A Python \<^verbatim>\<open>str\<close> is a sequence of Unicode code points; it is modelled as the list of
  its code points. \<open>U\<close> turns an ASCII literal into such a list.
\<close>

type_synonym ustr = "nat list"

definition U :: "string \<Rightarrow> ustr" where
  "U s = map of_char s"

text \<open>\<^verbatim>\<open>str.isspace\<close> of one character, which is also the class \<^verbatim>\<open>\s\<close> of \<^verbatim>\<open>re\<close>.\<close>

definition py_isspace :: "nat \<Rightarrow> bool" where
  "py_isspace c \<longleftrightarrow>
     (9 \<le> c \<and> c \<le> 13) \<or> (28 \<le> c \<and> c \<le> 32) \<or> c = 133 \<or> c = 160 \<or> c = 5760 \<or>
     (8192 \<le> c \<and> c \<le> 8202) \<or> c = 8232 \<or> c = 8233 \<or> c = 8239 \<or> c = 8287 \<or> c = 12288"

definition in_ranges :: "(nat \<times> nat) list \<Rightarrow> nat \<Rightarrow> bool" where
  "in_ranges rs c = list_ex (\<lambda>r. fst r \<le> c \<and> c \<le> snd r) rs"

text \<open>The decimal digits beyond ASCII (Unicode category Nd), as inclusive ranges.\<close>

definition digit_ranges :: "(nat \<times> nat) list" where
  "digit_ranges = [
    (1632, 1641), (1776, 1785), (1984, 1993), (2406, 2415), (2534, 2543), (2662, 2671),
    (2790, 2799), (2918, 2927), (3046, 3055), (3174, 3183), (3302, 3311), (3430, 3439),
    (3558, 3567), (3664, 3673), (3792, 3801), (3872, 3881), (4160, 4169), (4240, 4249),
    (6112, 6121), (6160, 6169), (6470, 6479), (6608, 6617), (6784, 6793), (6800, 6809),
    (6992, 7001), (7088, 7097), (7232, 7241), (7248, 7257), (42528, 42537), (43216, 43225),
    (43264, 43273), (43472, 43481), (43504, 43513), (43600, 43609), (44016, 44025),
    (65296, 65305), (66720, 66729), (68912, 68921), (69734, 69743), (69872, 69881),
    (69942, 69951), (70096, 70105), (70384, 70393), (70736, 70745), (70864, 70873),
    (71248, 71257), (71360, 71369), (71472, 71481), (71904, 71913), (72016, 72025),
    (72784, 72793), (73040, 73049), (73120, 73129), (92768, 92777), (92864, 92873),
    (93008, 93017), (120782, 120831), (123200, 123209), (123632, 123641), (125264, 125273),
    (130032, 130041)]"

text \<open>The class \<^verbatim>\<open>\d\<close> of \<^verbatim>\<open>re\<close> on a \<^verbatim>\<open>str\<close> pattern.\<close>

definition py_isdigit :: "nat \<Rightarrow> bool" where
  "py_isdigit c = (if c < 128 then 48 \<le> c \<and> c \<le> 57 else in_ranges digit_ranges c)"

text \<open>The alphanumeric code points beyond ASCII, as inclusive ranges.\<close>

definition alnum_ranges :: "(nat \<times> nat) list" where
  "alnum_ranges = [
    (170, 170), (178, 179), (181, 181), (185, 186), (188, 190), (192, 214), (216, 246),
    (248, 705), (710, 721), (736, 740), (748, 748), (750, 750), (880, 884), (886, 887),
    (890, 893), (895, 895), (902, 902), (904, 906), (908, 908), (910, 929), (931, 1013),
    (1015, 1153), (1162, 1327), (1329, 1366), (1369, 1369), (1376, 1416), (1488, 1514),
    (1519, 1522), (1568, 1610), (1632, 1641), (1646, 1647), (1649, 1747), (1749, 1749),
    (1765, 1766), (1774, 1788), (1791, 1791), (1808, 1808), (1810, 1839), (1869, 1957),
    (1969, 1969), (1984, 2026), (2036, 2037), (2042, 2042), (2048, 2069), (2074, 2074),
    (2084, 2084), (2088, 2088), (2112, 2136), (2144, 2154), (2160, 2183), (2185, 2190),
    (2208, 2249), (2308, 2361), (2365, 2365), (2384, 2384), (2392, 2401), (2406, 2415),
    (2417, 2432), (2437, 2444), (2447, 2448), (2451, 2472), (2474, 2480), (2482, 2482),
    (2486, 2489), (2493, 2493), (2510, 2510), (2524, 2525), (2527, 2529), (2534, 2545),
    (2548, 2553), (2556, 2556), (2565, 2570), (2575, 2576), (2579, 2600), (2602, 2608),
    (2610, 2611), (2613, 2614), (2616, 2617), (2649, 2652), (2654, 2654), (2662, 2671),
    (2674, 2676), (2693, 2701), (2703, 2705), (2707, 2728), (2730, 2736), (2738, 2739),
    (2741, 2745), (2749, 2749), (2768, 2768), (2784, 2785), (2790, 2799), (2809, 2809),
    (2821, 2828), (2831, 2832), (2835, 2856), (2858, 2864), (2866, 2867), (2869, 2873),
    (2877, 2877), (2908, 2909), (2911, 2913), (2918, 2927), (2929, 2935), (2947, 2947),
    (2949, 2954), (2958, 2960), (2962, 2965), (2969, 2970), (2972, 2972), (2974, 2975),
    (2979, 2980), (2984, 2986), (2990, 3001), (3024, 3024), (3046, 3058), (3077, 3084),
    (3086, 3088), (3090, 3112), (3114, 3129), (3133, 3133), (3160, 3162), (3165, 3165),
    (3168, 3169), (3174, 3183), (3192, 3198), (3200, 3200), (3205, 3212), (3214, 3216),
    (3218, 3240), (3242, 3251), (3253, 3257), (3261, 3261), (3293, 3294), (3296, 3297),
    (3302, 3311), (3313, 3314), (3332, 3340), (3342, 3344), (3346, 3386), (3389, 3389),
    (3406, 3406), (3412, 3414), (3416, 3425), (3430, 3448), (3450, 3455), (3461, 3478),
    (3482, 3505), (3507, 3515), (3517, 3517), (3520, 3526), (3558, 3567), (3585, 3632),
    (3634, 3635), (3648, 3654), (3664, 3673), (3713, 3714), (3716, 3716), (3718, 3722),
    (3724, 3747), (3749, 3749), (3751, 3760), (3762, 3763), (3773, 3773), (3776, 3780),
    (3782, 3782), (3792, 3801), (3804, 3807), (3840, 3840), (3872, 3891), (3904, 3911),
    (3913, 3948), (3976, 3980), (4096, 4138), (4159, 4169), (4176, 4181), (4186, 4189),
    (4193, 4193), (4197, 4198), (4206, 4208), (4213, 4225), (4238, 4238), (4240, 4249),
    (4256, 4293), (4295, 4295), (4301, 4301), (4304, 4346), (4348, 4680), (4682, 4685),
    (4688, 4694), (4696, 4696), (4698, 4701), (4704, 4744), (4746, 4749), (4752, 4784),
    (4786, 4789), (4792, 4798), (4800, 4800), (4802, 4805), (4808, 4822), (4824, 4880),
    (4882, 4885), (4888, 4954), (4969, 4988), (4992, 5007), (5024, 5109), (5112, 5117),
    (5121, 5740), (5743, 5759), (5761, 5786), (5792, 5866), (5870, 5880), (5888, 5905),
    (5919, 5937), (5952, 5969), (5984, 5996), (5998, 6000), (6016, 6067), (6103, 6103),
    (6108, 6108), (6112, 6121), (6128, 6137), (6160, 6169), (6176, 6264), (6272, 6276),
    (6279, 6312), (6314, 6314), (6320, 6389), (6400, 6430), (6470, 6509), (6512, 6516),
    (6528, 6571), (6576, 6601), (6608, 6618), (6656, 6678), (6688, 6740), (6784, 6793),
    (6800, 6809), (6823, 6823), (6917, 6963), (6981, 6988), (6992, 7001), (7043, 7072),
    (7086, 7141), (7168, 7203), (7232, 7241), (7245, 7293), (7296, 7304), (7312, 7354),
    (7357, 7359), (7401, 7404), (7406, 7411), (7413, 7414), (7418, 7418), (7424, 7615),
    (7680, 7957), (7960, 7965), (7968, 8005), (8008, 8013), (8016, 8023), (8025, 8025),
    (8027, 8027), (8029, 8029), (8031, 8061), (8064, 8116), (8118, 8124), (8126, 8126),
    (8130, 8132), (8134, 8140), (8144, 8147), (8150, 8155), (8160, 8172), (8178, 8180),
    (8182, 8188), (8304, 8305), (8308, 8313), (8319, 8329), (8336, 8348), (8450, 8450),
    (8455, 8455), (8458, 8467), (8469, 8469), (8473, 8477), (8484, 8484), (8486, 8486),
    (8488, 8488), (8490, 8493), (8495, 8505), (8508, 8511), (8517, 8521), (8526, 8526),
    (8528, 8585), (9312, 9371), (9450, 9471), (10102, 10131), (11264, 11492), (11499, 11502),
    (11506, 11507), (11517, 11517), (11520, 11557), (11559, 11559), (11565, 11565),
    (11568, 11623), (11631, 11631), (11648, 11670), (11680, 11686), (11688, 11694),
    (11696, 11702), (11704, 11710), (11712, 11718), (11720, 11726), (11728, 11734),
    (11736, 11742), (11823, 11823), (12293, 12295), (12321, 12329), (12337, 12341),
    (12344, 12348), (12353, 12438), (12445, 12447), (12449, 12538), (12540, 12543),
    (12549, 12591), (12593, 12686), (12690, 12693), (12704, 12735), (12784, 12799),
    (12832, 12841), (12872, 12879), (12881, 12895), (12928, 12937), (12977, 12991),
    (13312, 19903), (19968, 42124), (42192, 42237), (42240, 42508), (42512, 42539),
    (42560, 42606), (42623, 42653), (42656, 42735), (42775, 42783), (42786, 42888),
    (42891, 42954), (42960, 42961), (42963, 42963), (42965, 42969), (42994, 43009),
    (43011, 43013), (43015, 43018), (43020, 43042), (43056, 43061), (43072, 43123),
    (43138, 43187), (43216, 43225), (43250, 43255), (43259, 43259), (43261, 43262),
    (43264, 43301), (43312, 43334), (43360, 43388), (43396, 43442), (43471, 43481),
    (43488, 43492), (43494, 43518), (43520, 43560), (43584, 43586), (43588, 43595),
    (43600, 43609), (43616, 43638), (43642, 43642), (43646, 43695), (43697, 43697),
    (43701, 43702), (43705, 43709), (43712, 43712), (43714, 43714), (43739, 43741),
    (43744, 43754), (43762, 43764), (43777, 43782), (43785, 43790), (43793, 43798),
    (43808, 43814), (43816, 43822), (43824, 43866), (43868, 43881), (43888, 44002),
    (44016, 44025), (44032, 55203), (55216, 55238), (55243, 55291), (63744, 64109),
    (64112, 64217), (64256, 64262), (64275, 64279), (64285, 64285), (64287, 64296),
    (64298, 64310), (64312, 64316), (64318, 64318), (64320, 64321), (64323, 64324),
    (64326, 64433), (64467, 64829), (64848, 64911), (64914, 64967), (65008, 65019),
    (65136, 65140), (65142, 65276), (65296, 65305), (65313, 65338), (65345, 65370),
    (65382, 65470), (65474, 65479), (65482, 65487), (65490, 65495), (65498, 65500),
    (65536, 65547), (65549, 65574), (65576, 65594), (65596, 65597), (65599, 65613),
    (65616, 65629), (65664, 65786), (65799, 65843), (65856, 65912), (65930, 65931),
    (66176, 66204), (66208, 66256), (66273, 66299), (66304, 66339), (66349, 66378),
    (66384, 66421), (66432, 66461), (66464, 66499), (66504, 66511), (66513, 66517),
    (66560, 66717), (66720, 66729), (66736, 66771), (66776, 66811), (66816, 66855),
    (66864, 66915), (66928, 66938), (66940, 66954), (66956, 66962), (66964, 66965),
    (66967, 66977), (66979, 66993), (66995, 67001), (67003, 67004), (67072, 67382),
    (67392, 67413), (67424, 67431), (67456, 67461), (67463, 67504), (67506, 67514),
    (67584, 67589), (67592, 67592), (67594, 67637), (67639, 67640), (67644, 67644),
    (67647, 67669), (67672, 67702), (67705, 67742), (67751, 67759), (67808, 67826),
    (67828, 67829), (67835, 67867), (67872, 67897), (67968, 68023), (68028, 68047),
    (68050, 68096), (68112, 68115), (68117, 68119), (68121, 68149), (68160, 68168),
    (68192, 68222), (68224, 68255), (68288, 68295), (68297, 68324), (68331, 68335),
    (68352, 68405), (68416, 68437), (68440, 68466), (68472, 68497), (68521, 68527),
    (68608, 68680), (68736, 68786), (68800, 68850), (68858, 68899), (68912, 68921),
    (69216, 69246), (69248, 69289), (69296, 69297), (69376, 69415), (69424, 69445),
    (69457, 69460), (69488, 69505), (69552, 69579), (69600, 69622), (69635, 69687),
    (69714, 69743), (69745, 69746), (69749, 69749), (69763, 69807), (69840, 69864),
    (69872, 69881), (69891, 69926), (69942, 69951), (69956, 69956), (69959, 69959),
    (69968, 70002), (70006, 70006), (70019, 70066), (70081, 70084), (70096, 70106),
    (70108, 70108), (70113, 70132), (70144, 70161), (70163, 70187), (70272, 70278),
    (70280, 70280), (70282, 70285), (70287, 70301), (70303, 70312), (70320, 70366),
    (70384, 70393), (70405, 70412), (70415, 70416), (70419, 70440), (70442, 70448),
    (70450, 70451), (70453, 70457), (70461, 70461), (70480, 70480), (70493, 70497),
    (70656, 70708), (70727, 70730), (70736, 70745), (70751, 70753), (70784, 70831),
    (70852, 70853), (70855, 70855), (70864, 70873), (71040, 71086), (71128, 71131),
    (71168, 71215), (71236, 71236), (71248, 71257), (71296, 71338), (71352, 71352),
    (71360, 71369), (71424, 71450), (71472, 71483), (71488, 71494), (71680, 71723),
    (71840, 71922), (71935, 71942), (71945, 71945), (71948, 71955), (71957, 71958),
    (71960, 71983), (71999, 71999), (72001, 72001), (72016, 72025), (72096, 72103),
    (72106, 72144), (72161, 72161), (72163, 72163), (72192, 72192), (72203, 72242),
    (72250, 72250), (72272, 72272), (72284, 72329), (72349, 72349), (72368, 72440),
    (72704, 72712), (72714, 72750), (72768, 72768), (72784, 72812), (72818, 72847),
    (72960, 72966), (72968, 72969), (72971, 73008), (73030, 73030), (73040, 73049),
    (73056, 73061), (73063, 73064), (73066, 73097), (73112, 73112), (73120, 73129),
    (73440, 73458), (73648, 73648), (73664, 73684), (73728, 74649), (74752, 74862),
    (74880, 75075), (77712, 77808), (77824, 78894), (82944, 83526), (92160, 92728),
    (92736, 92766), (92768, 92777), (92784, 92862), (92864, 92873), (92880, 92909),
    (92928, 92975), (92992, 92995), (93008, 93017), (93019, 93025), (93027, 93047),
    (93053, 93071), (93760, 93846), (93952, 94026), (94032, 94032), (94099, 94111),
    (94176, 94177), (94179, 94179), (94208, 100343), (100352, 101589), (101632, 101640),
    (110576, 110579), (110581, 110587), (110589, 110590), (110592, 110882), (110928, 110930),
    (110948, 110951), (110960, 111355), (113664, 113770), (113776, 113788), (113792, 113800),
    (113808, 113817), (119520, 119539), (119648, 119672), (119808, 119892), (119894, 119964),
    (119966, 119967), (119970, 119970), (119973, 119974), (119977, 119980), (119982, 119993),
    (119995, 119995), (119997, 120003), (120005, 120069), (120071, 120074), (120077, 120084),
    (120086, 120092), (120094, 120121), (120123, 120126), (120128, 120132), (120134, 120134),
    (120138, 120144), (120146, 120485), (120488, 120512), (120514, 120538), (120540, 120570),
    (120572, 120596), (120598, 120628), (120630, 120654), (120656, 120686), (120688, 120712),
    (120714, 120744), (120746, 120770), (120772, 120779), (120782, 120831), (122624, 122654),
    (123136, 123180), (123191, 123197), (123200, 123209), (123214, 123214), (123536, 123565),
    (123584, 123627), (123632, 123641), (124896, 124902), (124904, 124907), (124909, 124910),
    (124912, 124926), (124928, 125124), (125127, 125135), (125184, 125251), (125259, 125259),
    (125264, 125273), (126065, 126123), (126125, 126127), (126129, 126132), (126209, 126253),
    (126255, 126269), (126464, 126467), (126469, 126495), (126497, 126498), (126500, 126500),
    (126503, 126503), (126505, 126514), (126516, 126519), (126521, 126521), (126523, 126523),
    (126530, 126530), (126535, 126535), (126537, 126537), (126539, 126539), (126541, 126543),
    (126545, 126546), (126548, 126548), (126551, 126551), (126553, 126553), (126555, 126555),
    (126557, 126557), (126559, 126559), (126561, 126562), (126564, 126564), (126567, 126570),
    (126572, 126578), (126580, 126583), (126585, 126588), (126590, 126590), (126592, 126601),
    (126603, 126619), (126625, 126627), (126629, 126633), (126635, 126651), (127232, 127244),
    (130032, 130041), (131072, 173791), (173824, 177976), (177984, 178205), (178208, 183969),
    (183984, 191456), (194560, 195101), (196608, 201546)]"

text \<open>The class \<^verbatim>\<open>\w\<close> of \<^verbatim>\<open>re\<close>: alphanumeric or underscore.\<close>

definition py_isword :: "nat \<Rightarrow> bool" where
  "py_isword c =
     (if c < 128 then (48 \<le> c \<and> c \<le> 57) \<or> (65 \<le> c \<and> c \<le> 90) \<or> c = 95 \<or> (97 \<le> c \<and> c \<le> 122)
      else in_ranges alnum_ranges c)"

text \<open>
  The simple lower-case mapping that \<^verbatim>\<open>re\<close> applies under \<^verbatim>\<open>IGNORECASE\<close>, on the
  letters the patterns of this program can meet: ASCII and basic Cyrillic, and the two
  code points beyond ASCII whose lower case is an ASCII letter (U+0130 and the Kelvin sign).
  Every other code point is left as it is.
\<close>

definition sre_lower :: "nat \<Rightarrow> nat" where
  "sre_lower c =
     (if 65 \<le> c \<and> c \<le> 90 then c + 32
      else if c = 304 then 105
      else if c = 8490 then 107
      else if 1040 \<le> c \<and> c \<le> 1071 then c + 32
      else if 1024 \<le> c \<and> c \<le> 1039 then c + 80
      else c)"

text \<open>
  The extra case equivalences of \<^verbatim>\<open>re\<close> (dotless i, long s, the Cyrillic letter
  variants U+1C80 to U+1C86), for the same letters.
\<close>

definition sre_equiv :: "nat \<Rightarrow> nat list" where
  "sre_equiv c =
     (if c = 105 then [305] else if c = 305 then [105]
      else if c = 115 then [383] else if c = 383 then [115]
      else if c = 1074 then [7296] else if c = 7296 then [1074]
      else if c = 1076 then [7297] else if c = 7297 then [1076]
      else if c = 1086 then [7298] else if c = 7298 then [1086]
      else if c = 1089 then [7299] else if c = 7299 then [1089]
      else if c = 1090 then [7300, 7301] else if c = 7300 then [1090, 7301]
      else if c = 7301 then [1090, 7300]
      else if c = 1098 then [7302] else if c = 7302 then [1098]
      else [])"

text \<open>The lower-case pattern characters that a subject character stands for under \<^verbatim>\<open>IGNORECASE\<close>.\<close>

definition sre_fold :: "nat \<Rightarrow> nat list" where
  "sre_fold c = sre_lower c # sre_equiv (sre_lower c)"

text \<open>
  \<^verbatim>\<open>str.lower\<close>, on the same letters; U+0130 becomes two code points. It is only used
  in tests against ASCII text, which the lower case of no other letter can affect.
\<close>

definition lower_char :: "nat \<Rightarrow> ustr" where
  "lower_char c =
     (if 65 \<le> c \<and> c \<le> 90 then [c + 32]
      else if c = 304 then [105, 775]
      else if c = 8490 then [107]
      else if 1040 \<le> c \<and> c \<le> 1071 then [c + 32]
      else if 1024 \<le> c \<and> c \<le> 1039 then [c + 80]
      else [c])"

definition py_lower :: "ustr \<Rightarrow> ustr" where
  "py_lower s = concat (map lower_char s)"

definition py_lstrip :: "ustr \<Rightarrow> ustr" where
  "py_lstrip s = dropWhile py_isspace s"

definition py_rstrip :: "ustr \<Rightarrow> ustr" where
  "py_rstrip s = rev (dropWhile py_isspace (rev s))"

definition py_strip :: "ustr \<Rightarrow> ustr" where
  "py_strip s = py_rstrip (py_lstrip s)"

text \<open>\<^verbatim>\<open>line.rstrip('\n\r')\<close>\<close>

definition rstrip_newlines :: "ustr \<Rightarrow> ustr" where
  "rstrip_newlines s = rev (dropWhile (\<lambda>c. c = 10 \<or> c = 13) (rev s))"

definition startswith :: "ustr \<Rightarrow> ustr \<Rightarrow> bool" where
  "startswith s p = (take (length p) s = p)"

definition endswith :: "ustr \<Rightarrow> ustr \<Rightarrow> bool" where
  "endswith s p = (length p \<le> length s \<and> drop (length s - length p) s = p)"

text \<open>\<^verbatim>\<open>p in s\<close>\<close>

fun contains :: "ustr \<Rightarrow> ustr \<Rightarrow> bool" where
  "contains p [] = (p = [])"
| "contains p (c # cs) = (startswith (c # cs) p \<or> contains p cs)"

text \<open>\<^verbatim>\<open>sep.join(ls)\<close>\<close>

fun join :: "ustr \<Rightarrow> ustr list \<Rightarrow> ustr" where
  "join sep [] = []"
| "join sep [l] = l"
| "join sep (l # ls) = l @ sep @ join sep ls"

text \<open>The decimal numeral of a natural number, as \<^verbatim>\<open>str(n)\<close> and \<^verbatim>\<open>f"{n}"\<close> give it.\<close>

function show_nat :: "nat \<Rightarrow> ustr" where
  "show_nat n = (if n < 10 then [48 + n] else show_nat (n div 10) @ [48 + n mod 10])"
  by pat_completeness auto
termination
  by (relation "measure id") auto

declare show_nat.simps [simp del]

text \<open>\<^verbatim>\<open>f"{n:02d}"\<close>\<close>

definition show_nat_02 :: "nat \<Rightarrow> ustr" where
  "show_nat_02 n = (if n < 10 then 48 # show_nat n else show_nat n)"


section \<open>Regular expressions\<close>

text \<open>
  The patterns of the program are Python \<^verbatim>\<open>re\<close> patterns. They are embedded as syntax
  trees and run by a backtracking matcher that returns, for a start state, every way the
  pattern can match there, in the order in which \<^verbatim>\<open>re\<close> tries them (greedy repetition,
  left alternative first). The first element is the match \<^verbatim>\<open>re\<close> reports.
\<close>

datatype citem = CChar nat | CRange nat nat | CSpace | CDigit

fun in_item :: "citem \<Rightarrow> nat \<Rightarrow> bool" where
  "in_item (CChar a) c = (c = a)"
| "in_item (CRange a b) c = (a \<le> c \<and> c \<le> b)"
| "in_item CSpace c = py_isspace c"
| "in_item CDigit c = py_isdigit c"

definition in_items :: "citem list \<Rightarrow> nat \<Rightarrow> bool" where
  "in_items items c = list_ex (\<lambda>it. in_item it c) items"

text \<open>Membership in a character class; \<open>ic\<close> is the \<^verbatim>\<open>IGNORECASE\<close> flag.\<close>

definition in_class :: "bool \<Rightarrow> citem list \<Rightarrow> nat \<Rightarrow> bool" where
  "in_class ic items c = (if ic then list_ex (in_items items) (sre_fold c) else in_items items c)"

definition lit_eq :: "bool \<Rightarrow> nat \<Rightarrow> nat \<Rightarrow> bool" where
  "lit_eq ic p c = (if ic then sre_lower p \<in> set (sre_fold c) else c = p)"

datatype re =
    Lit nat
  | Dot
  | Cls "citem list"
  | NCls "citem list"
  | Eps
  | Seq re re
  | Alt re re
  | Star re
  | Rep nat nat re
  | Grp nat re
  | Backref nat
  | Bol
  | Eol
  | WordB
  | NotBehind "citem list"
  | NotAhead "citem list"

text \<open>
  A match state is the position in the subject, the character before it, the text from it
  on, and the capture groups set so far, each as group number, start and end; the most
  recent entry of a group is the first in the list.
\<close>

type_synonym caps = "(nat \<times> nat \<times> nat) list"

datatype mstate = MS (pos: nat) (prev: "nat option") (rest: ustr) (caps: caps)

fun wt :: "re \<Rightarrow> nat" where
  "wt (Seq a b) = Suc (wt a + wt b)"
| "wt (Alt a b) = Suc (wt a + wt b)"
| "wt (Star a) = Suc (wt a)"
| "wt (Rep m n a) = Suc (wt a + n)"
| "wt (Grp k a) = Suc (wt a)"
| "wt _ = 0"

text \<open>\<^verbatim>\<open>s[a:b]\<close> for \<open>a \<le> b\<close>\<close>

definition slice :: "ustr \<Rightarrow> nat \<Rightarrow> nat \<Rightarrow> ustr" where
  "slice s a b = take (b - a) (drop a s)"

definition one :: "(nat \<Rightarrow> bool) \<Rightarrow> mstate \<Rightarrow> mstate list" where
  "one p st =
     (case rest st of
        [] \<Rightarrow> []
      | c # cs \<Rightarrow> if p c then [MS (pos st + 1) (Some c) cs (caps st)] else [])"

definition guard :: "bool \<Rightarrow> mstate \<Rightarrow> mstate list" where
  "guard b st = (if b then [st] else [])"

definition prev_is :: "(nat \<Rightarrow> bool) \<Rightarrow> mstate \<Rightarrow> bool" where
  "prev_is p st = (case prev st of None \<Rightarrow> False | Some c \<Rightarrow> p c)"

definition next_is :: "(nat \<Rightarrow> bool) \<Rightarrow> mstate \<Rightarrow> bool" where
  "next_is p st = (case rest st of [] \<Rightarrow> False | c # cs \<Rightarrow> p c)"

text \<open>A back-reference: the text of the group must come next (letter case ignored under \<open>ic\<close>).\<close>

definition backref :: "bool \<Rightarrow> ustr \<Rightarrow> mstate \<Rightarrow> mstate list" where
  "backref ic g st =
     (let h = take (length g) (rest st)
      in guard (length h = length g \<and> (if ic then map sre_lower h = map sre_lower g else h = g))
           (MS (pos st + length g) (if g = [] then prev st else Some (last g))
               (drop (length g) (rest st)) (caps st)))"

text \<open>
  \<open>ms ic n s r st\<close> lists the states in which a match of \<open>r\<close> from state \<open>st\<close> can end,
  in the order in which \<^verbatim>\<open>re\<close> tries them; \<open>s\<close> is the subject and \<open>n\<close> its length.
  \<open>Rep m n a\<close> is \<^verbatim>\<open>a{m,n}\<close>; \<open>NotBehind\<close> and \<open>NotAhead\<close> are the negative
  look-behind and look-ahead for one character of a class, the only ones the program uses.
  A repetition only continues after an iteration that consumed something, which is what
  ends the loop on an empty iteration.
\<close>

function ms :: "bool \<Rightarrow> nat \<Rightarrow> ustr \<Rightarrow> re \<Rightarrow> mstate \<Rightarrow> mstate list" where
  "ms ic n s (Lit c) st = one (lit_eq ic c) st"
| "ms ic n s Dot st = one (\<lambda>x. x \<noteq> 10) st"
| "ms ic n s (Cls items) st = one (in_class ic items) st"
| "ms ic n s (NCls items) st = one (\<lambda>x. \<not> in_class ic items x) st"
| "ms ic n s Eps st = [st]"
| "ms ic n s (Seq a b) st = concat (map (ms ic n s b) (ms ic n s a st))"
| "ms ic n s (Alt a b) st = ms ic n s a st @ ms ic n s b st"
| "ms ic n s (Star a) st =
     concat (map (\<lambda>st'. if pos st < pos st' \<and> pos st' \<le> n then ms ic n s (Star a) st' else [])
                 (ms ic n s a st)) @ [st]"
| "ms ic n s (Rep m k a) st =
     (if k = 0 then [] else concat (map (ms ic n s (Rep (m - 1) (k - 1) a)) (ms ic n s a st)))
     @ guard (m = 0) st"
| "ms ic n s (Grp k a) st =
     map (\<lambda>st'. MS (pos st') (prev st') (rest st') ((k, pos st, pos st') # caps st'))
         (ms ic n s a st)"
| "ms ic n s (Backref k) st =
     (case map_of (caps st) k of
        None \<Rightarrow> []
      | Some (a, b) \<Rightarrow> backref ic (slice s a b) st)"
| "ms ic n s Bol st = guard (pos st = 0) st"
| "ms ic n s Eol st = guard (rest st = [] \<or> rest st = [10]) st"
| "ms ic n s WordB st = guard (prev_is py_isword st \<noteq> next_is py_isword st) st"
| "ms ic n s (NotBehind items) st = guard (\<not> prev_is (in_items items) st) st"
| "ms ic n s (NotAhead items) st = guard (\<not> next_is (in_items items) st) st"
  by pat_completeness auto
termination
  by (relation "measures [\<lambda>(ic, n, s, r, st). wt r, \<lambda>(ic, n, s, r, st). n - pos st]") auto

text \<open>The match of the pattern that starts in state \<open>st\<close>, if there is one.\<close>

definition match_at :: "bool \<Rightarrow> re \<Rightarrow> ustr \<Rightarrow> mstate \<Rightarrow> mstate option" where
  "match_at ic r s st = (case ms ic (length s) s r st of [] \<Rightarrow> None | m # _ \<Rightarrow> Some m)"

text \<open>\<^verbatim>\<open>re.match(r, s)\<close>\<close>

definition re_match :: "bool \<Rightarrow> re \<Rightarrow> ustr \<Rightarrow> mstate option" where
  "re_match ic r s = match_at ic r s (MS 0 None s [])"

text \<open>\<^verbatim>\<open>re.search(r, s)\<close>, as a test: some position has a match.\<close>

fun search_from :: "bool \<Rightarrow> re \<Rightarrow> ustr \<Rightarrow> nat \<Rightarrow> nat option \<Rightarrow> ustr \<Rightarrow> bool" where
  "search_from ic r s i p [] = (match_at ic r s (MS i p [] []) \<noteq> None)"
| "search_from ic r s i p (c # cs) =
     (if match_at ic r s (MS i p (c # cs) []) \<noteq> None then True
      else search_from ic r s (i + 1) (Some c) cs)"

definition re_search :: "bool \<Rightarrow> re \<Rightarrow> ustr \<Rightarrow> bool" where
  "re_search ic r s = search_from ic r s 0 None s"

text \<open>\<^verbatim>\<open>m.group(k)\<close>; a group that did not take part gives the empty string in a template.\<close>

definition grp :: "ustr \<Rightarrow> caps \<Rightarrow> nat \<Rightarrow> ustr" where
  "grp s cs k = (case map_of cs k of None \<Rightarrow> [] | Some (a, b) \<Rightarrow> slice s a b)"

text \<open>
  \<^verbatim>\<open>re.sub(r, f, s)\<close>, scanning the subject from left to right: \<open>i\<close> is the position,
  \<open>p\<close> the character before it, \<open>skip\<close> the number of characters that still belong to
  the last match. A match is replaced by what \<open>f\<close> returns for the subject, the start of the
  match and its final state; the scan goes on behind the match (and one character further
  after an empty match).
\<close>

fun sub_from ::
  "bool \<Rightarrow> re \<Rightarrow> (ustr \<Rightarrow> nat \<Rightarrow> mstate \<Rightarrow> ustr) \<Rightarrow> ustr \<Rightarrow> nat \<Rightarrow> nat option \<Rightarrow> nat \<Rightarrow> ustr \<Rightarrow> ustr"
where
  "sub_from ic r f s i p skip [] =
     (if skip = 0 then
        (case match_at ic r s (MS i p [] []) of None \<Rightarrow> [] | Some m \<Rightarrow> f s i m)
      else [])"
| "sub_from ic r f s i p skip (c # cs) =
     (if skip = 0 then
        (case match_at ic r s (MS i p (c # cs) []) of
           None \<Rightarrow> c # sub_from ic r f s (i + 1) (Some c) 0 cs
         | Some m \<Rightarrow>
             (if pos m = i then f s i m @ c # sub_from ic r f s (i + 1) (Some c) 0 cs
              else f s i m @ sub_from ic r f s (i + 1) (Some c) (pos m - i - 1) cs))
      else sub_from ic r f s (i + 1) (Some c) (skip - 1) cs)"

declare sub_from.simps [simp del]

definition re_sub_fn :: "bool \<Rightarrow> re \<Rightarrow> (ustr \<Rightarrow> nat \<Rightarrow> mstate \<Rightarrow> ustr) \<Rightarrow> ustr \<Rightarrow> ustr" where
  "re_sub_fn ic r f s = sub_from ic r f s 0 None 0 s"

text \<open>A replacement template: literal text and group references \<^verbatim>\<open>\k\<close>.\<close>

datatype tpl = T ustr | G nat

fun expand1 :: "ustr \<Rightarrow> caps \<Rightarrow> tpl \<Rightarrow> ustr" where
  "expand1 s cs (T t) = t"
| "expand1 s cs (G k) = grp s cs k"

definition expand :: "tpl list \<Rightarrow> ustr \<Rightarrow> nat \<Rightarrow> mstate \<Rightarrow> ustr" where
  "expand ts s i m = concat (map (expand1 s (caps m)) ts)"

text \<open>\<^verbatim>\<open>re.sub(r, template, s)\<close>\<close>

definition re_sub :: "bool \<Rightarrow> re \<Rightarrow> tpl list \<Rightarrow> ustr \<Rightarrow> ustr" where
  "re_sub ic r ts s = re_sub_fn ic r (expand ts) s"

fun seqs :: "re list \<Rightarrow> re" where
  "seqs [] = Eps"
| "seqs [r] = r"
| "seqs (r # rs) = Seq r (seqs rs)"

text \<open>\<^verbatim>\<open>a+\<close>, \<^verbatim>\<open>a?\<close>, \<^verbatim>\<open>a{n,}\<close>, a literal string, \<^verbatim>\<open>\s\<close> and \<^verbatim>\<open>\d\<close>\<close>

definition Plus :: "re \<Rightarrow> re" where
  "Plus r = Seq r (Star r)"

definition Opt :: "re \<Rightarrow> re" where
  "Opt r = Alt r Eps"

definition AtLeast :: "nat \<Rightarrow> re \<Rightarrow> re" where
  "AtLeast n r = Seq (Rep n n r) (Star r)"

definition lits :: "ustr \<Rightarrow> re" where
  "lits s = seqs (map Lit s)"

definition space :: re where
  "space = Cls [CSpace]"

definition digit :: re where
  "digit = Cls [CDigit]"


section \<open>Reading a text file\<close>

text \<open>
  Both programs open their input in text mode, where Python translates \<^verbatim>\<open>\r\n\<close> and a
  lone \<^verbatim>\<open>\r\<close> into \<^verbatim>\<open>\n\<close>, and \<^verbatim>\<open>readlines\<close> cuts the text behind every
  \<^verbatim>\<open>\n\<close>, keeping it. The argument is the decoded content of the file.
\<close>

fun universal_newlines :: "ustr \<Rightarrow> ustr" where
  "universal_newlines [] = []"
| "universal_newlines [c] = [if c = 13 then 10 else c]"
| "universal_newlines (c # d # cs) =
     (if c = 13 \<and> d = 10 then 10 # universal_newlines cs
      else if c = 13 then 10 # universal_newlines (d # cs)
      else c # universal_newlines (d # cs))"

fun split_keepends :: "ustr \<Rightarrow> ustr \<Rightarrow> ustr list" where
  "split_keepends cur [] = (if cur = [] then [] else [cur])"
| "split_keepends cur (c # cs) =
     (if c = 10 then (cur @ [10]) # split_keepends [] cs else split_keepends (cur @ [c]) cs)"

definition readlines :: "ustr \<Rightarrow> ustr list" where
  "readlines text = split_keepends [] (universal_newlines text)"


section \<open>The section splitter (split_markdown.py)\<close>

definition is_fence_line :: "ustr \<Rightarrow> bool" where
  "is_fence_line line \<longleftrightarrow>
     startswith (py_strip line) (U ''```'') \<or> startswith (py_strip line) (U ''~~~'')"

definition is_h2_line :: "ustr \<Rightarrow> bool" where
  "is_h2_line line \<longleftrightarrow>
     startswith (py_strip line) (U ''## '') \<and> \<not> startswith (py_strip line) (U ''### '')"

text \<open>\<^verbatim>\<open>current_section and any(l.strip() for l in current_section)\<close>\<close>

definition non_blank :: "ustr list \<Rightarrow> bool" where
  "non_blank section \<longleftrightarrow> section \<noteq> [] \<and> list_ex (\<lambda>l. py_strip l \<noteq> []) section"

text \<open>
  The loop of \<^verbatim>\<open>parse_markdown_file\<close>, with its three variables \<^verbatim>\<open>sections\<close>,
  \<^verbatim>\<open>current_section\<close> and \<^verbatim>\<open>in_code_block\<close>; the first equation is the code behind
  the loop.
\<close>

fun split_loop :: "ustr list list \<Rightarrow> ustr list \<Rightarrow> bool \<Rightarrow> ustr list \<Rightarrow> ustr list list" where
  "split_loop sections current in_code_block [] =
     (if non_blank current then sections @ [current] else sections)"
| "split_loop sections current in_code_block (line # lines) =
     (if is_fence_line line then split_loop sections (current @ [line]) (\<not> in_code_block) lines
      else if in_code_block then split_loop sections (current @ [line]) in_code_block lines
      else if is_h2_line line then
        split_loop (if non_blank current then sections @ [current] else sections) [line]
          in_code_block lines
      else split_loop sections (current @ [line]) in_code_block lines)"

definition parse_markdown_lines :: "ustr list \<Rightarrow> ustr list list" where
  "parse_markdown_lines lines = split_loop [] [] False lines"

definition parse_markdown_file :: "ustr \<Rightarrow> ustr list list" where
  "parse_markdown_file text = parse_markdown_lines (readlines text)"

text \<open>
  \<^verbatim>\<open>Path(filename).stem\<close> of a file name that is one path component, as the caller
  passes it (\<^verbatim>\<open>md_file.name\<close>): the name up to its last dot, unless that dot is the
  first or the last character.
\<close>

definition rfind :: "ustr \<Rightarrow> nat \<Rightarrow> nat option" where
  "rfind s c = (if c \<in> set s then Some (length s - 1 - length (takeWhile (\<lambda>x. x \<noteq> c) (rev s))) else None)"

definition path_stem :: "ustr \<Rightarrow> ustr" where
  "path_stem name =
     (case rfind name 46 of
        None \<Rightarrow> name
      | Some i \<Rightarrow> if 0 < i \<and> i + 1 < length name then take i name else name)"

text \<open>\<^verbatim>\<open>^(\d+)\<close>\<close>

definition digits_prefix_re :: re where
  "digits_prefix_re = Seq Bol (Grp 1 (Plus digit))"

definition extract_file_prefix :: "ustr \<Rightarrow> ustr" where
  "extract_file_prefix filename =
     (let name_without_ext = path_stem filename
      in case re_match False digits_prefix_re name_without_ext of
           Some m \<Rightarrow> grp name_without_ext (caps m) 1
         | None \<Rightarrow> take 2 name_without_ext)"

definition image_extensions :: "ustr list" where
  "image_extensions =
     [U ''.png'', U ''.jpg'', U ''.jpeg'', U ''.gif'', U ''.svg'', U ''.webp'', U ''.bmp'']"

definition is_image_path :: "ustr \<Rightarrow> bool" where
  "is_image_path path = list_ex (\<lambda>ext. endswith (py_lower path) ext) image_extensions"

text \<open>\<^verbatim>\<open>(!?)\[([^\]]*)\]\(([^\)]+)\)\<close>, compiled with \<^verbatim>\<open>IGNORECASE\<close>\<close>

definition markdown_link_pattern :: re where
  "markdown_link_pattern =
     seqs [Grp 1 (Opt (Lit 33)), Lit 91, Grp 2 (Star (NCls [CChar 93])), Lit 93, Lit 40,
           Grp 3 (Plus (NCls [CChar 41])), Lit 41]"

text \<open>\<^verbatim>\<open>'../' * levels_up\<close>\<close>

definition parent_dirs :: "nat \<Rightarrow> ustr" where
  "parent_dirs levels_up = concat (replicate levels_up (U ''../''))"

text \<open>
  The function \<^verbatim>\<open>replace_link\<close> inside \<^verbatim>\<open>adjust_relative_path\<close>, on the three groups
  and the whole text \<open>g0\<close> of a match.
\<close>

definition replace_link :: "nat \<Rightarrow> ustr \<Rightarrow> ustr \<Rightarrow> ustr \<Rightarrow> ustr \<Rightarrow> ustr" where
  "replace_link levels_up g0 g1 g2 g3 =
     (let is_image = (g1 = U ''!'');
          alt_or_text = g2;
          old_path = py_strip g3
      in if startswith old_path (U ''http://'') \<or> startswith old_path (U ''https://'') then g0
         else if startswith old_path (U ''/'') then g0
         else if is_image \<or> is_image_path old_path then
           (if startswith old_path (U ''./'') then
              g1 @ U ''['' @ alt_or_text @ U '']('' @ (parent_dirs levels_up @ drop 2 old_path) @ U '')''
            else if startswith old_path (U ''../'') then g0
            else g1 @ U ''['' @ alt_or_text @ U '']('' @ (parent_dirs levels_up @ old_path) @ U '')'')
         else if startswith old_path (U ''../'') then g0
         else if startswith old_path (U ''./'') then g0
         else g0)"

definition replace_link_at :: "nat \<Rightarrow> ustr \<Rightarrow> nat \<Rightarrow> mstate \<Rightarrow> ustr" where
  "replace_link_at levels_up s i m =
     replace_link levels_up (slice s i (pos m)) (grp s (caps m) 1) (grp s (caps m) 2)
       (grp s (caps m) 3)"

definition adjust_relative_path :: "ustr \<Rightarrow> nat \<Rightarrow> ustr" where
  "adjust_relative_path line levels_up =
     (if levels_up = 0 then line
      else re_sub_fn True markdown_link_pattern (replace_link_at levels_up) line)"

text \<open>
  \<^verbatim>\<open>save_sections\<close>: the files it writes, as pairs of file name and content, in order.
  \<^verbatim>\<open>levels_up\<close> is what \<^verbatim>\<open>calculate_path_adjustment\<close> returns for the two directories.
\<close>

definition section_filename :: "ustr \<Rightarrow> nat \<Rightarrow> ustr" where
  "section_filename file_prefix idx = file_prefix @ U ''_'' @ show_nat_02 idx @ U ''.md''"

definition save_sections :: "ustr list list \<Rightarrow> ustr \<Rightarrow> nat \<Rightarrow> (ustr \<times> ustr) list" where
  "save_sections sections file_prefix levels_up =
     map (\<lambda>(idx, section).
            (section_filename file_prefix idx,
             concat (map (\<lambda>line. adjust_relative_path line levels_up) section)))
         (zip [1 ..< length sections + 1] sections)"

text \<open>What \<^verbatim>\<open>process_directory\<close> does with one file of the source directory.\<close>

definition split_file :: "ustr \<Rightarrow> ustr \<Rightarrow> nat \<Rightarrow> (ustr \<times> ustr) list" where
  "split_file filename text levels_up =
     save_sections (parse_markdown_file text) (extract_file_prefix filename) levels_up"


section \<open>The rewrite rules (simplify_markdown.py)\<close>

text \<open>
  Each rule is given with its pattern as the source writes it. The list prefix
  \<^verbatim>\<open>(\s*(?:-|\d+\.)\s+)\<close> opens several of them.
\<close>

definition list_marker :: re where
  "list_marker = Alt (Lit 45) (Seq (Plus digit) (Lit 46))"

definition list_prefix :: re where
  "list_prefix = Grp 1 (seqs [Star space, list_marker, Plus space])"

text \<open>\<^verbatim>\<open>^(#{1,6})\s+(.+)$\<close>\<close>

definition header_re :: re where
  "header_re = seqs [Bol, Grp 1 (Rep 1 6 (Lit 35)), Plus space, Grp 2 (Plus Dot), Eol]"

definition normalize_headers :: "ustr \<Rightarrow> ustr" where
  "normalize_headers line =
     (case re_match False header_re line of
        Some m \<Rightarrow> U ''### '' @ grp line (caps m) 2
      | None \<Rightarrow> line)"

text \<open>\<^verbatim>\<open>^(\s*-)\s*\[([ xX])\]\s*\<close> replaced by \<^verbatim>\<open>\1 \<close>\<close>

definition checklist_re :: re where
  "checklist_re =
     seqs [Bol, Grp 1 (Seq (Star space) (Lit 45)), Star space, Lit 91,
           Grp 2 (Cls [CChar 32, CChar 120, CChar 88]), Lit 93, Star space]"

definition remove_checklists :: "ustr \<Rightarrow> ustr" where
  "remove_checklists line = re_sub False checklist_re [G 1, T (U '' '')] line"

text \<open>
  \<^verbatim>\<open>^(\s*(?:-|\d+\.)\s+)\*\*([^*]+):\*\*\s*(.+)$\<close> and
  \<^verbatim>\<open>^(\s*(?:-|\d+\.)\s+)\*\*([^*]+)\*\*:\s*(.+)$\<close>
\<close>

definition bold_colon_pattern1 :: re where
  "bold_colon_pattern1 =
     seqs [Bol, list_prefix, Lit 42, Lit 42, Grp 2 (Plus (NCls [CChar 42])), Lit 58, Lit 42, Lit 42,
           Star space, Grp 3 (Plus Dot), Eol]"

definition bold_colon_pattern2 :: re where
  "bold_colon_pattern2 =
     seqs [Bol, list_prefix, Lit 42, Lit 42, Grp 2 (Plus (NCls [CChar 42])), Lit 42, Lit 42, Lit 58,
           Star space, Grp 3 (Plus Dot), Eol]"

definition fix_bold_colon_in_lists :: "ustr \<Rightarrow> ustr" where
  "fix_bold_colon_in_lists line =
     (if re_match False bold_colon_pattern1 line \<noteq> None then
        re_sub False bold_colon_pattern1 [G 1, G 2, T (U '': ''), G 3] line
      else if re_match False bold_colon_pattern2 line \<noteq> None then
        re_sub False bold_colon_pattern2 [G 1, G 2, T (U '': ''), G 3] line
      else line)"

text \<open>
  \<^verbatim>\<open>^(\s*(?:-|\d+\.)\s+)`([^`]+)`\s*X\s*(.+)$\<close> where \<^verbatim>\<open>X\<close> is the em dash
  (U+2014), the colon or the hyphen.
\<close>

definition code_sep_pattern :: "nat \<Rightarrow> re" where
  "code_sep_pattern sep =
     seqs [Bol, list_prefix, Lit 96, Grp 2 (Plus (NCls [CChar 96])), Lit 96, Star space, Lit sep,
           Star space, Grp 3 (Plus Dot), Eol]"

definition fix_code_with_dash_in_lists :: "ustr \<Rightarrow> ustr" where
  "fix_code_with_dash_in_lists line =
     (if re_match False (code_sep_pattern 8212) line \<noteq> None then
        re_sub False (code_sep_pattern 8212) [G 1, G 2, T [32, 8212, 32], G 3] line
      else if re_match False (code_sep_pattern 58) line \<noteq> None then
        re_sub False (code_sep_pattern 58) [G 1, G 2, T (U '': ''), G 3] line
      else if re_match False (code_sep_pattern 45) line \<noteq> None then
        re_sub False (code_sep_pattern 45) [G 1, G 2, T (U '' - ''), G 3] line
      else line)"

text \<open>\<^verbatim>\<open>^\s*(-|\d+\.)\s+\<close>: the line is a list item, bulleted or numbered.\<close>

definition list_item_re :: re where
  "list_item_re = seqs [Bol, Star space, Grp 1 list_marker, Plus space]"

definition is_list_item :: "ustr \<Rightarrow> bool" where
  "is_list_item line \<longleftrightarrow> re_match False list_item_re line \<noteq> None"

text \<open>\<^verbatim>\<open>\*\*([^*]+)\*\*\<close>\<close>

definition bold_re :: re where
  "bold_re = seqs [Lit 42, Lit 42, Grp 1 (Plus (NCls [CChar 42])), Lit 42, Lit 42]"

definition remove_bold_in_lists :: "ustr \<Rightarrow> ustr" where
  "remove_bold_in_lists line = (if is_list_item line then re_sub False bold_re [G 1] line else line)"

text \<open>\<^verbatim>\<open>`([^`]+)`\<close>\<close>

definition code_re :: re where
  "code_re = seqs [Lit 96, Grp 1 (Plus (NCls [CChar 96])), Lit 96]"

definition remove_code_in_lists :: "ustr \<Rightarrow> ustr" where
  "remove_code_in_lists line = (if is_list_item line then re_sub False code_re [G 1] line else line)"

text \<open>
  The pre-pass \<^verbatim>\<open>unify_nested_list_types\<close>. Its loop variables are \<^verbatim>\<open>parent_type\<close>
  (\<^verbatim>\<open>None\<close>, \<^verbatim>\<open>'numbered'\<close> or \<^verbatim>\<open>'bullet'\<close>), \<^verbatim>\<open>parent_indent\<close> and
  \<^verbatim>\<open>nested_counter\<close>. The patterns \<^verbatim>\<open>^\d+\.\s+\<close> and \<^verbatim>\<open>^-\s+\<close> are applied to the
  line without its leading white space.
\<close>

datatype list_type = Numbered | Bullet

record list_context =
  parent_type :: "list_type option"
  parent_indent :: nat
  nested_counter :: nat

definition numbered_marker_re :: re where
  "numbered_marker_re = seqs [Bol, Plus digit, Lit 46, Plus space]"

definition bullet_marker_re :: re where
  "bullet_marker_re = seqs [Bol, Lit 45, Plus space]"

definition is_numbered :: "ustr \<Rightarrow> bool" where
  "is_numbered stripped \<longleftrightarrow> re_match False numbered_marker_re stripped \<noteq> None"

definition is_bullet :: "ustr \<Rightarrow> bool" where
  "is_bullet stripped \<longleftrightarrow> re_match False bullet_marker_re stripped \<noteq> None"

definition current_indent :: "ustr \<Rightarrow> nat" where
  "current_indent line = length line - length (py_lstrip line)"

text \<open>The text of a list item behind its marker.\<close>

definition item_text :: "ustr \<Rightarrow> ustr" where
  "item_text stripped =
     (if is_numbered stripped then re_sub False numbered_marker_re [] stripped
      else if is_bullet stripped then re_sub False bullet_marker_re [] stripped
      else stripped)"

text \<open>One turn of the loop: the new loop variables and the line appended to the result.\<close>

definition unify_step :: "list_context \<Rightarrow> ustr \<Rightarrow> list_context \<times> ustr" where
  "unify_step ctx line =
     (let stripped = py_lstrip line;
          indent = current_indent line
      in if \<not> is_numbered stripped \<and> \<not> is_bullet stripped then
           (if indent \<le> parent_indent ctx
            then (\<lparr>parent_type = None, parent_indent = 0, nested_counter = 1\<rparr>, line)
            else (ctx, line))
         else if indent = 0 \<or> indent \<le> parent_indent ctx then
           (\<lparr>parent_type = Some (if is_numbered stripped then Numbered else Bullet),
             parent_indent = indent, nested_counter = 1\<rparr>, line)
         else
           (case parent_type ctx of
              None \<Rightarrow> (ctx, line)
            | Some Numbered \<Rightarrow>
                (ctx\<lparr>nested_counter := nested_counter ctx + 1\<rparr>,
                 replicate indent 32 @ show_nat (nested_counter ctx) @ U ''. '' @ item_text stripped)
            | Some Bullet \<Rightarrow> (ctx, replicate indent 32 @ U ''- '' @ item_text stripped)))"

fun unify_loop :: "list_context \<Rightarrow> ustr list \<Rightarrow> ustr list" where
  "unify_loop ctx [] = []"
| "unify_loop ctx (line # lines) =
     (case unify_step ctx line of (ctx', out) \<Rightarrow> out # unify_loop ctx' lines)"

definition unify_nested_list_types :: "ustr list \<Rightarrow> ustr list" where
  "unify_nested_list_types lines =
     unify_loop \<lparr>parent_type = None, parent_indent = 0, nested_counter = 1\<rparr> lines"

text \<open>\<^verbatim>\<open>^\s*\d+\.\s+\<close> and \<^verbatim>\<open>(?<!\*)\*(?!\*)([^*]+)\*(?!\*)\<close>\<close>

definition numbered_item_re :: re where
  "numbered_item_re = seqs [Bol, Star space, Plus digit, Lit 46, Plus space]"

definition italic_re :: re where
  "italic_re =
     seqs [NotBehind [CChar 42], Lit 42, NotAhead [CChar 42], Grp 1 (Plus (NCls [CChar 42])),
           Lit 42, NotAhead [CChar 42]]"

definition remove_italic_in_lists :: "ustr \<Rightarrow> ustr" where
  "remove_italic_in_lists line =
     (if re_match False numbered_item_re line \<noteq> None then re_sub False italic_re [G 1] line
      else line)"

definition remove_inline_code_everywhere :: "ustr \<Rightarrow> ustr" where
  "remove_inline_code_everywhere line =
     (if startswith (py_strip line) (U ''```'') then line
      else re_sub False code_re [T (U ''*''), G 1, T (U ''*'')] line)"

text \<open>
  \<^verbatim>\<open>(?<![*])\b([a-z][a-z0-9]*(?:_[a-z0-9]+)+)\b(?![*])\<close> and
  \<^verbatim>\<open>(?<![-*])\b([a-z]{4,})\b(?![*])\<close>
\<close>

definition snake_case_re :: re where
  "snake_case_re =
     seqs [NotBehind [CChar 42], WordB,
           Grp 1 (seqs [Cls [CRange 97 122], Star (Cls [CRange 97 122, CRange 48 57]),
                        Plus (Seq (Lit 95) (Plus (Cls [CRange 97 122, CRange 48 57])))]),
           WordB, NotAhead [CChar 42]]"

definition tech_term_re :: re where
  "tech_term_re =
     seqs [NotBehind [CChar 45, CChar 42], WordB, Grp 1 (AtLeast 4 (Cls [CRange 97 122])), WordB,
           NotAhead [CChar 42]]"

definition common_words :: "ustr list" where
  "common_words = map U
     [''is'', ''are'', ''was'', ''were'', ''be'', ''been'', ''being'',
      ''and'', ''or'', ''not'', ''but'', ''if'', ''the'', ''a'', ''an'',
      ''in'', ''on'', ''at'', ''to'', ''for'', ''of'', ''with'', ''by'',
      ''as'', ''it'', ''this'', ''that'', ''from'', ''all'', ''can'',
      ''will'', ''would'', ''should'', ''could'', ''may'', ''might'',
      ''do'', ''does'', ''did'', ''have'', ''has'', ''had'',
      ''get'', ''set'', ''use'', ''make'', ''take'', ''go'', ''see'',
      ''new'', ''old'', ''first'', ''last'', ''next'', ''one'', ''two'',
      ''when'', ''where'', ''why'', ''how'', ''what'', ''which'',
      ''some'', ''any'', ''many'', ''much'', ''few'', ''more'', ''most'',
      ''only'', ''just'', ''also'', ''even'', ''well'', ''way'', ''back'',
      ''time'', ''year'', ''work'', ''part'', ''case'', ''over'', ''than'',
      ''able'', ''data'', ''into'', ''then'', ''them'', ''each'', ''such'']"

definition wrap_snake_case :: "ustr \<Rightarrow> nat \<Rightarrow> mstate \<Rightarrow> ustr" where
  "wrap_snake_case s i m = U ''*'' @ grp s (caps m) 1 @ U ''*''"

definition replace_tech_term :: "ustr \<Rightarrow> nat \<Rightarrow> mstate \<Rightarrow> ustr" where
  "replace_tech_term s i m =
     (let word = grp s (caps m) 1
      in if py_lower word \<in> set common_words then word else U ''*'' @ word @ U ''*'')"

definition count_char :: "ustr \<Rightarrow> nat \<Rightarrow> nat" where
  "count_char s c = length (filter (\<lambda>x. x = c) s)"

definition wrap_technical_terms_in_italic :: "ustr \<Rightarrow> ustr" where
  "wrap_technical_terms_in_italic line =
     (if startswith (py_strip line) (U ''```'') then line
      else if startswith (py_strip line) (U ''|'') \<or> 2 < count_char line 124 then line
      else if startswith (py_strip line) (U ''#'') \<or> py_strip line = U ''---'' then line
      else if is_list_item line then line
      else re_sub_fn False tech_term_re replace_tech_term
             (re_sub_fn False snake_case_re wrap_snake_case line))"

text \<open>\<^verbatim>\<open>(!\[[^\]]+\]\()([^\)]+)(\))\<close>\<close>

definition image_re :: re where
  "image_re =
     seqs [Grp 1 (seqs [Lit 33, Lit 91, Plus (NCls [CChar 93]), Lit 93, Lit 40]),
           Grp 2 (Plus (NCls [CChar 41])), Grp 3 (Lit 41)]"

definition process_without_image_path :: "ustr \<Rightarrow> nat \<Rightarrow> mstate \<Rightarrow> ustr" where
  "process_without_image_path s i m =
     wrap_technical_terms_in_italic (grp s (caps m) 1) @ grp s (caps m) 2 @
     wrap_technical_terms_in_italic (grp s (caps m) 3)"

definition wrap_technical_terms_in_italic_except_images :: "ustr \<Rightarrow> ustr" where
  "wrap_technical_terms_in_italic_except_images line =
     (if re_search False image_re line then re_sub_fn False image_re process_without_image_path line
      else wrap_technical_terms_in_italic line)"

text \<open>
  The emoji class of \<^verbatim>\<open>fix_emoji_at_list_start\<close>, an optional U+FE0F behind it:
  \<^verbatim>\<open>^(\s*(?:-|\d+\.)\s+)([...][\uFE0F]?)\s+(.+)$\<close>
\<close>

definition emoji_class :: "citem list" where
  "emoji_class =
     [CRange 127744 129535, CRange 128512 128591, CRange 128640 128767, CRange 9728 10175,
      CRange 127456 127487, CRange 129280 129535, CRange 129648 129791]"

definition emoji_pattern :: re where
  "emoji_pattern =
     seqs [Bol, list_prefix, Grp 2 (Seq (Cls emoji_class) (Opt (Cls [CChar 65039]))), Plus space,
           Grp 3 (Plus Dot), Eol]"

definition fix_emoji_at_list_start :: "ustr \<Rightarrow> ustr" where
  "fix_emoji_at_list_start line =
     (case re_match False emoji_pattern line of
        Some m \<Rightarrow> grp line (caps m) 1 @ grp line (caps m) 2 @ U '': '' @ grp line (caps m) 3
      | None \<Rightarrow> line)"

text \<open>
  The pre-pass \<^verbatim>\<open>process_details_blocks\<close>. The loop sets \<^verbatim>\<open>in_details\<close>,
  \<^verbatim>\<open>in_summary\<close> and \<^verbatim>\<open>summary_content\<close> and never reads them, so only the result
  list is kept.
\<close>

definition details_open_re :: re where
  "details_open_re = lits (U ''<details>'')"

definition process_details_line :: "ustr \<Rightarrow> ustr list" where
  "process_details_line line =
     (if contains (U ''<details>'') (py_lower line) then
        (let clean_line = re_sub True details_open_re [] line
         in if py_strip clean_line \<noteq> [] then [clean_line] else [])
      else if contains (U ''<summary>'') (py_lower line) then []
      else if contains (U ''</summary>'') (py_lower line) then []
      else if contains (U ''</details>'') (py_lower line) then []
      else [line])"

definition process_details_blocks :: "ustr list \<Rightarrow> ustr list" where
  "process_details_blocks lines = concat (map process_details_line lines)"

text \<open>
  \<^verbatim>\<open>remove_show_answer_headers\<close> returns \<^verbatim>\<open>None\<close> for a line to be removed. Its
  pattern, matched with \<^verbatim>\<open>IGNORECASE\<close>, starts with a class of U+1F441, U+FE0F and white
  space and goes on with three Russian words: \<^verbatim>\<open>^[...\s]*Pokazat\s+(otvet|reshenie|rezultat)\<close>.
\<close>

definition show_answer_re :: re where
  "show_answer_re =
     seqs [Bol, Star (Cls [CChar 128065, CChar 65039, CSpace]),
           lits [1055, 1086, 1082, 1072, 1079, 1072, 1090, 1100], Plus space,
           Grp 1 (Alt (lits [1086, 1090, 1074, 1077, 1090])
                 (Alt (lits [1088, 1077, 1096, 1077, 1085, 1080, 1077])
                      (lits [1088, 1077, 1079, 1091, 1083, 1100, 1090, 1072, 1090])))]"

definition remove_show_answer_headers :: "ustr \<Rightarrow> ustr option" where
  "remove_show_answer_headers line =
     (let stripped = py_strip line
      in if stripped = [] then Some line
         else let clean = re_sub False bold_re [G 1] stripped
              in if re_match True show_answer_re clean \<noteq> None then None else Some line)"

text \<open>\<^verbatim>\<open>(!?)\[([^\]]+)\]\(([^)]+)\)\<close> and, on the URL, \<^verbatim>\<open>^https?://\<close>\<close>

definition link_re :: re where
  "link_re =
     seqs [Grp 1 (Opt (Lit 33)), Lit 91, Grp 2 (Plus (NCls [CChar 93])), Lit 93, Lit 40,
           Grp 3 (Plus (NCls [CChar 41])), Lit 41]"

definition protocol_prefix_re :: re where
  "protocol_prefix_re = seqs [Bol, lits (U ''http''), Opt (Lit 115), lits (U ''://'')]"

definition convert_link :: "ustr \<Rightarrow> nat \<Rightarrow> mstate \<Rightarrow> ustr" where
  "convert_link s i m =
     (let full_match = slice s i (pos m);
          optional_bang = grp s (caps m) 1;
          text = grp s (caps m) 2;
          url = grp s (caps m) 3
      in if optional_bang = U ''!'' \<or> is_image_path url then full_match
         else U ''*'' @ text @ U '' ('' @ re_sub False protocol_prefix_re [] url @ U '')*'')"

definition convert_markdown_links :: "ustr \<Rightarrow> ustr" where
  "convert_markdown_links line = re_sub_fn False link_re convert_link line"

text \<open>\<^verbatim>\<open>https?://([^\s)]+)\<close> replaced by \<^verbatim>\<open>\1\<close>\<close>

definition bare_url_re :: re where
  "bare_url_re =
     seqs [lits (U ''http''), Opt (Lit 115), lits (U ''://''), Grp 1 (Plus (NCls [CSpace, CChar 41]))]"

definition remove_bare_urls :: "ustr \<Rightarrow> ustr" where
  "remove_bare_urls line = re_sub False bare_url_re [G 1] line"

text \<open>
  \<^verbatim>\<open>quote_operators_in_lists\<close>: for each operator in turn the pattern
  \<^verbatim>\<open>(\s|^)(op)(\s*X\s*|\s+)\<close>, \<^verbatim>\<open>X\<close> the em dash, is replaced by \<^verbatim>\<open>\1"\2"\3\<close>.
  The test before the loop is \<^verbatim>\<open>^\s*>\s+\<close>.
\<close>

definition operators :: "re list" where
  "operators =
     [lits (U ''->''), lits (U ''->>''), lits (U ''@>''), Lit 63, lits (U ''<=''), lits (U ''>=''),
      lits (U ''!='')]"

definition operator_pattern :: "re \<Rightarrow> re" where
  "operator_pattern op =
     seqs [Grp 1 (Alt space Bol), Grp 2 op,
           Grp 3 (Alt (seqs [Star space, Lit 8212, Star space]) (Plus space))]"

definition quote_line_re :: re where
  "quote_line_re = seqs [Bol, Star space, Lit 62, Plus space]"

definition quote_operators_in_lists :: "ustr \<Rightarrow> ustr" where
  "quote_operators_in_lists line =
     (if startswith (py_strip line) (U ''```'') then line
      else if re_match False quote_line_re line \<noteq> None then line
      else foldl (\<lambda>l op. re_sub False (operator_pattern op) [G 1, T [34], G 2, T [34], G 3] l)
             line operators)"

text \<open>\<^verbatim>\<open>^(\s*>\s+)+\<close> replaced by nothing\<close>

definition blockquote_re :: re where
  "blockquote_re = seqs [Bol, Plus (Grp 1 (seqs [Star space, Lit 62, Plus space]))]"

definition remove_blockquotes :: "ustr \<Rightarrow> ustr" where
  "remove_blockquotes line = re_sub False blockquote_re [] line"

text \<open>
  \<^verbatim>\<open>remove_html_tags\<close>, all five patterns with \<^verbatim>\<open>IGNORECASE\<close>:
  \<^verbatim>\<open><b>([^<]+)</b>\<close> and the like, then \<^verbatim>\<open><([a-z]+)>([^<]+)</\1>\<close>.
\<close>

definition tag_re :: "ustr \<Rightarrow> re" where
  "tag_re name =
     seqs [Lit 60, lits name, Lit 62, Grp 1 (Plus (NCls [CChar 60])), Lit 60, Lit 47, lits name,
           Lit 62]"

definition any_tag_re :: re where
  "any_tag_re =
     seqs [Lit 60, Grp 1 (Plus (Cls [CRange 97 122])), Lit 62, Grp 2 (Plus (NCls [CChar 60])),
           Lit 60, Lit 47, Backref 1, Lit 62]"

definition remove_html_tags :: "ustr \<Rightarrow> ustr" where
  "remove_html_tags line =
     (let line = re_sub True (tag_re (U ''b'')) [T (U ''**''), G 1, T (U ''**'')] line;
          line = re_sub True (tag_re (U ''i'')) [T (U ''*''), G 1, T (U ''*'')] line;
          line = re_sub True (tag_re (U ''strong'')) [T (U ''**''), G 1, T (U ''**'')] line;
          line = re_sub True (tag_re (U ''em'')) [T (U ''*''), G 1, T (U ''*'')] line
      in re_sub True any_tag_re [G 2] line)"


section \<open>The rewrite pipeline (simplify_markdown_file)\<close>

text \<open>
  The rules applied to one line outside fenced code, in the order of the source;
  \<^verbatim>\<open>None\<close> when the first rule removes the line.
\<close>

definition rules_after_removal :: "ustr \<Rightarrow> ustr" where
  "rules_after_removal line =
     (let line = normalize_headers line;
          line = remove_checklists line;
          line = fix_bold_colon_in_lists line;
          line = fix_code_with_dash_in_lists line;
          line = remove_bold_in_lists line;
          line = remove_code_in_lists line;
          line = fix_emoji_at_list_start line;
          line = remove_html_tags line;
          line = remove_blockquotes line;
          line = remove_bare_urls line;
          line = convert_markdown_links line;
          line = quote_operators_in_lists line;
          line = remove_inline_code_everywhere line;
          line = wrap_technical_terms_in_italic_except_images line
      in remove_italic_in_lists line)"

definition process_line :: "ustr \<Rightarrow> ustr option" where
  "process_line line = map_option rules_after_removal (remove_show_answer_headers line)"

text \<open>
  The loop over the lines, with its flag \<^verbatim>\<open>in_code_block\<close>: a line whose stripped
  text starts with three backticks flips the flag and is kept as it is, and so is every
  line while the flag is set.
\<close>

definition is_code_fence :: "ustr \<Rightarrow> bool" where
  "is_code_fence line \<longleftrightarrow> startswith (py_strip line) (U ''```'')"

fun process_lines :: "bool \<Rightarrow> ustr list \<Rightarrow> ustr list" where
  "process_lines in_code_block [] = []"
| "process_lines in_code_block (line # lines) =
     (if is_code_fence line then line # process_lines (\<not> in_code_block) lines
      else if in_code_block then line # process_lines in_code_block lines
      else case process_line line of
             None \<Rightarrow> process_lines in_code_block lines
           | Some line' \<Rightarrow> line' # process_lines in_code_block lines)"

text \<open>The function on the lines read, newlines stripped: the two pre-passes, then the loop.\<close>

definition simplify_lines :: "ustr list \<Rightarrow> ustr list" where
  "simplify_lines lines =
     process_lines False (unify_nested_list_types (process_details_blocks lines))"

text \<open>\<^verbatim>\<open>simplify_markdown_file\<close>: from the text of the input file to the text written.\<close>

definition simplify_markdown_file :: "ustr \<Rightarrow> ustr" where
  "simplify_markdown_file text =
     join [10] (simplify_lines (map rstrip_newlines (readlines text)))"


section \<open>Example documents and notions used in the statements\<close>

text \<open>The document of the section split scenario.\<close>

definition split_scenario :: ustr where
  "split_scenario =
     U ''# Title'' @ [10, 10] @ U ''Intro'' @ [10, 10] @ U ''## A'' @ [10] @ U ''body A'' @ [10, 10] @
     U ''## B'' @ [10] @ U ''body B'' @ [10]"

text \<open>
  The characters that the rewrite rules insert (space, quote, hash, parentheses, asterisk,
  hyphen, colon, em dash), those that the list unifier inserts (space, hyphen, full stop,
  digits), and those that the path adjustment of the splitter inserts.
\<close>

definition markup_chars :: "nat set" where
  "markup_chars = {32, 34, 35, 40, 41, 42, 45, 58, 8212}"

definition list_chars :: "nat set" where
  "list_chars = {32, 45, 46} \<union> {48 .. 57}"


text \<open>The lines that \<^verbatim>\<open>simplify_markdown_file\<close> joins for its output.\<close>

definition processed_lines :: "ustr \<Rightarrow> ustr list" where
  "processed_lines text = simplify_lines (map rstrip_newlines (readlines text))"

text \<open>
  Two documents with a fenced region: a fence inside a numbered list item that holds a
  bulleted line, and a fence that holds a line with the opening tag of a collapsible block.
\<close>

definition fenced_list_document :: ustr where
  "fenced_list_document =
     U ''1. a'' @ [10] @ U ''   ```'' @ [10] @ U ''   - b'' @ [10] @ U ''   ```'' @ [10]"

definition fenced_details_document :: ustr where
  "fenced_details_document = U ''```'' @ [10] @ U ''<details>'' @ [10] @ U ''```'' @ [10]"



section \<open>Where the characters of the output come from\<close>

text \<open>
  A substitution only writes characters of its subject and of its replacement text, and
  a capture group is a piece of the subject. So every rule writes characters of its line
  and the few characters it inserts.
\<close>


lemma set_slice: "set (slice s a b) \<subseteq> set s"
  unfolding slice_def by (meson set_take_subset set_drop_subset subset_trans)

lemma set_grp: "set (grp s cs k) \<subseteq> set s"
  unfolding grp_def using set_slice by (auto split: option.splits)

lemma set_expand:
  assumes "\<forall>t. T t \<in> set ts \<longrightarrow> set t \<subseteq> X"
  shows "set (expand ts s i m) \<subseteq> set s \<union> X"
proof -
  have "set (expand1 s (caps m) tp) \<subseteq> set s \<union> X" if "tp \<in> set ts" for tp
  proof (cases tp)
    case (T t)
    with that assms show ?thesis by auto
  next
    case (G k)
    then show ?thesis using set_grp [of s "caps m" k] by auto
  qed
  then show ?thesis unfolding expand_def by auto
qed

lemma set_sub_from:
  assumes "\<And>i m. set (f s i m) \<subseteq> B"
  shows "set (sub_from ic r f s i p k xs) \<subseteq> set xs \<union> B"
proof (induction xs arbitrary: i p k)
  case Nil
  show ?case
  proof (cases "match_at ic r s (MS i p [] [])")
    case None
    then show ?thesis by (cases "k = 0") (simp_all add: sub_from.simps(1))
  next
    case (Some m)
    then show ?thesis using assms [of i m] by (cases "k = 0") (simp_all add: sub_from.simps(1))
  qed
next
  case (Cons c cs)
  have a: "set (sub_from ic r f s (i + 1) (Some c) j cs) \<subseteq> set (c # cs) \<union> B" for j
    using Cons.IH [of "i + 1" "Some c" j] by auto
  show ?case
  proof (cases "k = 0")
    case False
    then show ?thesis using a [of "k - 1"] by (simp add: sub_from.simps(2))
  next
    case True
    show ?thesis
    proof (cases "match_at ic r s (MS i p (c # cs) [])")
      case None
      with True show ?thesis using a [of 0] by (simp add: sub_from.simps(2))
    next
      case (Some m)
      show ?thesis
      proof (cases "pos m = i")
        case True
        with \<open>k = 0\<close> Some show ?thesis
          using a [of 0] assms [of i m] by (simp add: sub_from.simps(2)) blast
      next
        case False
        with \<open>k = 0\<close> Some show ?thesis
          using a [of "pos m - i - 1"] assms [of i m] by (simp add: sub_from.simps(2)) blast
      qed
    qed
  qed
qed

lemma set_re_sub_fn:
  "(\<And>i m. set (f s i m) \<subseteq> set s \<union> X) \<Longrightarrow> set (re_sub_fn ic r f s) \<subseteq> set s \<union> X"
  unfolding re_sub_fn_def using set_sub_from [of f s "set s \<union> X" ic r 0 None 0 s] by auto

lemma set_re_sub:
  "\<forall>t. T t \<in> set ts \<longrightarrow> set t \<subseteq> X \<Longrightarrow> set (re_sub ic r ts s) \<subseteq> set s \<union> X"
  unfolding re_sub_def by (rule set_re_sub_fn) (rule set_expand)

lemma set_re_sub_del: "set (re_sub ic r [] s) \<subseteq> set s"
  using set_re_sub [of "[]" "{}" ic r s] by simp

lemma set_normalize_headers: "set (normalize_headers l) \<subseteq> set l \<union> markup_chars"
  unfolding normalize_headers_def using set_grp [of l]
  by (auto simp: U_def markup_chars_def split: option.splits)

lemma set_remove_checklists: "set (remove_checklists l) \<subseteq> set l \<union> markup_chars"
  unfolding remove_checklists_def
  by (rule set_re_sub) (auto simp: U_def markup_chars_def)

lemma set_fix_bold_colon_in_lists: "set (fix_bold_colon_in_lists l) \<subseteq> set l \<union> markup_chars"
proof -
  have "set (re_sub False r [G 1, G 2, T (U '': ''), G 3] l) \<subseteq> set l \<union> markup_chars" for r
    by (rule set_re_sub) (auto simp: U_def markup_chars_def)
  then show ?thesis unfolding fix_bold_colon_in_lists_def by auto
qed

lemma set_fix_code_with_dash_in_lists:
  "set (fix_code_with_dash_in_lists l) \<subseteq> set l \<union> markup_chars"
proof -
  have "set (re_sub False r [G 1, G 2, T t, G 3] l) \<subseteq> set l \<union> markup_chars"
    if "set t \<subseteq> markup_chars" for r t
    by (rule set_re_sub) (use that in auto)
  moreover have "set [32, 8212, 32::nat] \<subseteq> markup_chars" "set (U '': '') \<subseteq> markup_chars"
    "set (U '' - '') \<subseteq> markup_chars"
    by (auto simp: U_def markup_chars_def)
  ultimately show ?thesis unfolding fix_code_with_dash_in_lists_def by auto
qed

lemma set_remove_bold_in_lists: "set (remove_bold_in_lists l) \<subseteq> set l"
  unfolding remove_bold_in_lists_def using set_re_sub [of "[G 1]" "{}" False bold_re l] by auto

lemma set_remove_code_in_lists: "set (remove_code_in_lists l) \<subseteq> set l"
  unfolding remove_code_in_lists_def using set_re_sub [of "[G 1]" "{}" False code_re l] by auto

lemma set_fix_emoji_at_list_start: "set (fix_emoji_at_list_start l) \<subseteq> set l \<union> markup_chars"
  unfolding fix_emoji_at_list_start_def using set_grp [of l]
  by (auto simp: U_def markup_chars_def split: option.splits)

lemma set_remove_html_tags: "set (remove_html_tags l) \<subseteq> set l \<union> markup_chars"
proof -
  have star: "set (re_sub True r [T t, G 1, T t] s) \<subseteq> set s \<union> markup_chars"
    if "set t \<subseteq> markup_chars" for r s t
    by (rule set_re_sub) (use that in auto)
  have b: "set (U ''**'') \<subseteq> markup_chars" "set (U ''*'') \<subseteq> markup_chars"
    by (auto simp: U_def markup_chars_def)
  define l1 where "l1 = re_sub True (tag_re (U ''b'')) [T (U ''**''), G 1, T (U ''**'')] l"
  define l2 where "l2 = re_sub True (tag_re (U ''i'')) [T (U ''*''), G 1, T (U ''*'')] l1"
  define l3 where "l3 = re_sub True (tag_re (U ''strong'')) [T (U ''**''), G 1, T (U ''**'')] l2"
  define l4 where "l4 = re_sub True (tag_re (U ''em'')) [T (U ''*''), G 1, T (U ''*'')] l3"
  have 1: "set l1 \<subseteq> set l \<union> markup_chars" unfolding l1_def by (rule star [OF b(1)])
  have 2: "set l2 \<subseteq> set l1 \<union> markup_chars" unfolding l2_def by (rule star [OF b(2)])
  have 3: "set l3 \<subseteq> set l2 \<union> markup_chars" unfolding l3_def by (rule star [OF b(1)])
  have 4: "set l4 \<subseteq> set l3 \<union> markup_chars" unfolding l4_def by (rule star [OF b(2)])
  have 5: "set (re_sub True any_tag_re [G 2] l4) \<subseteq> set l4"
    using set_re_sub [of "[G 2]" "{}" True any_tag_re l4] by auto
  have eq: "remove_html_tags l = re_sub True any_tag_re [G 2] l4"
    unfolding remove_html_tags_def Let_def l1_def l2_def l3_def l4_def ..
  show ?thesis unfolding eq using 1 2 3 4 5 by blast
qed

lemma set_remove_blockquotes: "set (remove_blockquotes l) \<subseteq> set l"
  unfolding remove_blockquotes_def by (rule set_re_sub_del)

lemma set_remove_bare_urls: "set (remove_bare_urls l) \<subseteq> set l"
  unfolding remove_bare_urls_def using set_re_sub [of "[G 1]" "{}" False bare_url_re l] by auto

lemma set_convert_markdown_links: "set (convert_markdown_links l) \<subseteq> set l \<union> markup_chars"
proof -
  have "set (convert_link l i m) \<subseteq> set l \<union> markup_chars" for i m
    unfolding convert_link_def Let_def
    using set_slice [of l i "pos m"] set_grp [of l "caps m"]
      set_re_sub_del [of False protocol_prefix_re "grp l (caps m) 3"]
    by (auto simp: U_def markup_chars_def)
  then show ?thesis unfolding convert_markdown_links_def by (rule set_re_sub_fn)
qed

lemma set_quote_operators_in_lists: "set (quote_operators_in_lists l) \<subseteq> set l \<union> markup_chars"
proof -
  have step: "set (re_sub False r [G 1, T [34], G 2, T [34], G 3] s) \<subseteq> set s \<union> markup_chars" for r s
    by (rule set_re_sub) (auto simp: markup_chars_def)
  have "set (foldl (\<lambda>l op. re_sub False (operator_pattern op) [G 1, T [34], G 2, T [34], G 3] l) s ops)
          \<subseteq> set s \<union> markup_chars" for s ops
  proof (induction ops arbitrary: s)
    case Nil
    show ?case by simp
  next
    case (Cons op ops)
    show ?case using Cons.IH [of "re_sub False (operator_pattern op) [G 1, T [34], G 2, T [34], G 3] s"]
        step [of "operator_pattern op" s] by auto
  qed
  then show ?thesis unfolding quote_operators_in_lists_def by auto
qed

lemma set_remove_inline_code_everywhere:
  "set (remove_inline_code_everywhere l) \<subseteq> set l \<union> markup_chars"
proof -
  have "set (re_sub False code_re [T (U ''*''), G 1, T (U ''*'')] l) \<subseteq> set l \<union> markup_chars"
    by (rule set_re_sub) (auto simp: U_def markup_chars_def)
  then show ?thesis unfolding remove_inline_code_everywhere_def by auto
qed

lemma set_wrap_technical_terms_in_italic:
  "set (wrap_technical_terms_in_italic l) \<subseteq> set l \<union> markup_chars"
proof -
  have a: "set (re_sub_fn False snake_case_re wrap_snake_case s) \<subseteq> set s \<union> markup_chars" for s
    by (rule set_re_sub_fn) (use set_grp [of s] in \<open>auto simp: wrap_snake_case_def U_def markup_chars_def\<close>)
  have b: "set (re_sub_fn False tech_term_re replace_tech_term s) \<subseteq> set s \<union> markup_chars" for s
    by (rule set_re_sub_fn)
      (use set_grp [of s] in \<open>auto simp: replace_tech_term_def Let_def U_def markup_chars_def\<close>)
  show ?thesis
    unfolding wrap_technical_terms_in_italic_def
    using a [of l] b [of "re_sub_fn False snake_case_re wrap_snake_case l"] by auto
qed

lemma set_wrap_technical_terms_in_italic_except_images:
  "set (wrap_technical_terms_in_italic_except_images l) \<subseteq> set l \<union> markup_chars"
proof -
  have "set (process_without_image_path l i m) \<subseteq> set l \<union> markup_chars" for i m
    unfolding process_without_image_path_def
    using set_grp [of l "caps m"] set_wrap_technical_terms_in_italic [of "grp l (caps m) 1"]
      set_wrap_technical_terms_in_italic [of "grp l (caps m) 3"]
    by auto
  then have "set (re_sub_fn False image_re process_without_image_path l) \<subseteq> set l \<union> markup_chars"
    by (rule set_re_sub_fn)
  then show ?thesis
    unfolding wrap_technical_terms_in_italic_except_images_def
    using set_wrap_technical_terms_in_italic [of l] by auto
qed

lemma set_remove_italic_in_lists: "set (remove_italic_in_lists l) \<subseteq> set l"
  unfolding remove_italic_in_lists_def using set_re_sub [of "[G 1]" "{}" False italic_re l] by auto

lemma set_rules_after_removal: "set (rules_after_removal l) \<subseteq> set l \<union> markup_chars"
proof -
  define l1 where "l1 = normalize_headers l"
  define l2 where "l2 = remove_checklists l1"
  define l3 where "l3 = fix_bold_colon_in_lists l2"
  define l4 where "l4 = fix_code_with_dash_in_lists l3"
  define l5 where "l5 = remove_bold_in_lists l4"
  define l6 where "l6 = remove_code_in_lists l5"
  define l7 where "l7 = fix_emoji_at_list_start l6"
  define l8 where "l8 = remove_html_tags l7"
  define l9 where "l9 = remove_blockquotes l8"
  define l10 where "l10 = remove_bare_urls l9"
  define l11 where "l11 = convert_markdown_links l10"
  define l12 where "l12 = quote_operators_in_lists l11"
  define l13 where "l13 = remove_inline_code_everywhere l12"
  define l14 where "l14 = wrap_technical_terms_in_italic_except_images l13"
  have eq: "rules_after_removal l = remove_italic_in_lists l14"
    unfolding rules_after_removal_def Let_def l1_def l2_def l3_def l4_def l5_def l6_def l7_def
      l8_def l9_def l10_def l11_def l12_def l13_def l14_def ..
  have "set l1 \<subseteq> set l \<union> markup_chars"
    unfolding l1_def by (rule set_normalize_headers)
  then have "set l2 \<subseteq> set l \<union> markup_chars"
    unfolding l2_def using set_remove_checklists [of l1] by blast
  then have "set l3 \<subseteq> set l \<union> markup_chars"
    unfolding l3_def using set_fix_bold_colon_in_lists [of l2] by blast
  then have "set l4 \<subseteq> set l \<union> markup_chars"
    unfolding l4_def using set_fix_code_with_dash_in_lists [of l3] by blast
  then have "set l5 \<subseteq> set l \<union> markup_chars"
    unfolding l5_def using set_remove_bold_in_lists [of l4] by blast
  then have "set l6 \<subseteq> set l \<union> markup_chars"
    unfolding l6_def using set_remove_code_in_lists [of l5] by blast
  then have "set l7 \<subseteq> set l \<union> markup_chars"
    unfolding l7_def using set_fix_emoji_at_list_start [of l6] by blast
  then have "set l8 \<subseteq> set l \<union> markup_chars"
    unfolding l8_def using set_remove_html_tags [of l7] by blast
  then have "set l9 \<subseteq> set l \<union> markup_chars"
    unfolding l9_def using set_remove_blockquotes [of l8] by blast
  then have "set l10 \<subseteq> set l \<union> markup_chars"
    unfolding l10_def using set_remove_bare_urls [of l9] by blast
  then have "set l11 \<subseteq> set l \<union> markup_chars"
    unfolding l11_def using set_convert_markdown_links [of l10] by blast
  then have "set l12 \<subseteq> set l \<union> markup_chars"
    unfolding l12_def using set_quote_operators_in_lists [of l11] by blast
  then have "set l13 \<subseteq> set l \<union> markup_chars"
    unfolding l13_def using set_remove_inline_code_everywhere [of l12] by blast
  then have "set l14 \<subseteq> set l \<union> markup_chars"
    unfolding l14_def using set_wrap_technical_terms_in_italic_except_images [of l13] by blast
  then show ?thesis
    unfolding eq using set_remove_italic_in_lists [of l14] by blast
qed

lemma set_process_line: "process_line l = Some l' \<Longrightarrow> set l' \<subseteq> set l \<union> markup_chars"
  unfolding process_line_def remove_show_answer_headers_def Let_def
  using set_rules_after_removal [of l] by (auto split: if_splits)

lemma set_process_lines:
  "l' \<in> set (process_lines b ls) \<Longrightarrow> \<exists>l\<in>set ls. set l' \<subseteq> set l \<union> markup_chars"
proof (induction ls arbitrary: b)
  case Nil
  then show ?case by simp
next
  case (Cons l ls)
  show ?case
  proof (cases "is_code_fence l \<or> b")
    case True
    with Cons show ?thesis by (auto split: if_splits)
  next
    case False
    show ?thesis
    proof (cases "process_line l")
      case None
      with False Cons show ?thesis by auto
    next
      case (Some out)
      with False Cons set_process_line [OF Some] show ?thesis by auto
    qed
  qed
qed

subsection \<open>Reading, the pre-passes and the loop\<close>


lemma universal_newlines_no_cr: "13 \<notin> set (universal_newlines t)"
  by (induction t rule: universal_newlines.induct) auto

lemma split_keepends_lines:
  "l \<in> set (split_keepends cur t) \<Longrightarrow> 10 \<notin> set cur \<Longrightarrow>
   (\<exists>b. 10 \<notin> set b \<and> set b \<subseteq> set cur \<union> set t \<and> (l = b @ [10] \<or> l = b))"
proof (induction t arbitrary: cur)
  case Nil
  then show ?case by (auto split: if_splits)
next
  case (Cons c cs)
  show ?case
  proof (cases "c = 10")
    case True
    with Cons.prems have "l = cur @ [10] \<or> l \<in> set (split_keepends [] cs)" by auto
    then show ?thesis
    proof
      assume "l = cur @ [10]"
      with Cons.prems show ?thesis by auto
    next
      assume "l \<in> set (split_keepends [] cs)"
      from Cons.IH [OF this] show ?thesis by auto
    qed
  next
    case False
    with Cons.prems have "l \<in> set (split_keepends (cur @ [c]) cs)" "10 \<notin> set (cur @ [c])" by auto
    from Cons.IH [OF this] show ?thesis by auto
  qed
qed

lemma rstrip_newlines_snoc: "rstrip_newlines (b @ [10]) = rstrip_newlines b"
  by (simp add: rstrip_newlines_def)

lemma set_rstrip_newlines: "set (rstrip_newlines b) \<subseteq> set b"
  unfolding rstrip_newlines_def using set_dropWhileD by fastforce

lemma readlines_stripped:
  assumes "l \<in> set (readlines text)"
  shows "10 \<notin> set (rstrip_newlines l) \<and> 13 \<notin> set (rstrip_newlines l)"
proof -
  from assms obtain b where b: "10 \<notin> set b" "set b \<subseteq> set (universal_newlines text)"
    "l = b @ [10] \<or> l = b"
    unfolding readlines_def using split_keepends_lines [of l "[]" "universal_newlines text"] by auto
  then have "rstrip_newlines l = rstrip_newlines b"
    using rstrip_newlines_snoc by auto
  moreover have "13 \<notin> set b" using b(2) universal_newlines_no_cr [of "text"] by auto
  ultimately show ?thesis using b(1) set_rstrip_newlines [of b] by auto
qed

lemma set_process_details_blocks:
  "l' \<in> set (process_details_blocks ls) \<Longrightarrow> \<exists>l\<in>set ls. set l' \<subseteq> set l"
  unfolding process_details_blocks_def process_details_line_def Let_def
  using set_re_sub_del [of True details_open_re]
  by (auto split: if_splits)

lemma set_show_nat: "set (show_nat n) \<subseteq> {48 .. 57}"
proof (induction n rule: show_nat.induct)
  case (1 n)
  show ?case
  proof (cases "n < 10")
    case True
    then show ?thesis by (subst show_nat.simps) auto
  next
    case False
    have "n mod 10 < 10" by simp
    then have "48 + n mod 10 \<in> {48 .. 57}" by auto
    with False 1 show ?thesis by (subst show_nat.simps) auto
  qed
qed

lemma set_item_text: "set (item_text s) \<subseteq> set s"
  unfolding item_text_def using set_re_sub_del by auto

lemma set_py_lstrip: "set (py_lstrip s) \<subseteq> set s"
  unfolding py_lstrip_def using set_dropWhileD by fastforce

lemma set_unify_step: "set (snd (unify_step ctx l)) \<subseteq> set l \<union> list_chars"
proof -
  have a: "set (item_text (py_lstrip l)) \<subseteq> set l"
    using set_item_text [of "py_lstrip l"] set_py_lstrip [of l] by blast
  have b: "set (show_nat n) \<subseteq> list_chars" for n
    using set_show_nat [of n] unfolding list_chars_def by blast
  have c: "32 \<in> list_chars" "set (U ''. '') \<subseteq> list_chars" "set (U ''- '') \<subseteq> list_chars"
    by (auto simp: list_chars_def U_def)
  define i where "i = current_indent l"
  define t where "t = item_text (py_lstrip l)"
  have "snd (unify_step ctx l) = l
      \<or> snd (unify_step ctx l) = replicate i 32 @ show_nat (nested_counter ctx) @ U ''. '' @ t
      \<or> snd (unify_step ctx l) = replicate i 32 @ U ''- '' @ t"
    unfolding unify_step_def Let_def i_def t_def
    by (simp split: option.splits list_type.splits)
  moreover have "set (replicate i 32 @ show_nat (nested_counter ctx) @ U ''. '' @ t) \<subseteq> set l \<union> list_chars"
    using a b [of "nested_counter ctx"] c unfolding t_def by auto
  moreover have "set (replicate i 32 @ U ''- '' @ t) \<subseteq> set l \<union> list_chars"
    using a c unfolding t_def by auto
  ultimately show ?thesis by auto
qed

lemma set_unify_loop:
  "l' \<in> set (unify_loop ctx ls) \<Longrightarrow> \<exists>l\<in>set ls. set l' \<subseteq> set l \<union> list_chars"
proof (induction ls arbitrary: ctx)
  case Nil
  then show ?case by simp
next
  case (Cons l ls)
  obtain ctx' out where st: "unify_step ctx l = (ctx', out)" by (cases "unify_step ctx l")
  with set_unify_step [of ctx l] have out: "set out \<subseteq> set l \<union> list_chars" by simp
  from Cons.prems st have "l' = out \<or> l' \<in> set (unify_loop ctx' ls)" by auto
  then show ?case
  proof
    assume "l' = out"
    with out show ?thesis by auto
  next
    assume "l' \<in> set (unify_loop ctx' ls)"
    from Cons.IH [OF this] show ?thesis by auto
  qed
qed

lemma set_simplify_lines:
  assumes "l' \<in> set (simplify_lines ls)"
  shows "\<exists>l\<in>set ls. set l' \<subseteq> set l \<union> markup_chars \<union> list_chars"
proof -
  from assms obtain l2 where l2: "l2 \<in> set (unify_nested_list_types (process_details_blocks ls))"
    "set l' \<subseteq> set l2 \<union> markup_chars"
    unfolding simplify_lines_def using set_process_lines by blast
  then obtain l1 where l1: "l1 \<in> set (process_details_blocks ls)" "set l2 \<subseteq> set l1 \<union> list_chars"
    unfolding unify_nested_list_types_def using set_unify_loop by blast
  then obtain l where "l \<in> set ls" "set l1 \<subseteq> set l"
    using set_process_details_blocks by blast
  with l1 l2 show ?thesis by blast
qed

lemma processed_lines_no_newline:
  assumes "l \<in> set (processed_lines text)"
  shows "10 \<notin> set l \<and> 13 \<notin> set l"
proof -
  from assms obtain l0 where l0: "l0 \<in> set (readlines text)"
    "set l \<subseteq> set (rstrip_newlines l0) \<union> markup_chars \<union> list_chars"
    unfolding processed_lines_def using set_simplify_lines by fastforce
  have "10 \<notin> markup_chars \<union> list_chars" "13 \<notin> markup_chars \<union> list_chars"
    by (auto simp: markup_chars_def list_chars_def)
  with l0 readlines_stripped [OF l0(1)] show ?thesis by blast
qed


lemma join_snoc: "ls \<noteq> [] \<Longrightarrow> join sep (ls @ [l]) = join sep ls @ sep @ l"
  by (induction sep ls rule: join.induct) auto

lemma join_last:
  assumes "ls \<noteq> []"
  shows "join sep ls = (if butlast ls = [] then last ls else join sep (butlast ls) @ sep @ last ls)"
proof (cases "butlast ls = []")
  case True
  with assms have "ls = [last ls]" by (metis append_butlast_last_id append_Nil)
  with True show ?thesis by (metis join.simps(2))
next
  case False
  with assms join_snoc [of "butlast ls" sep "last ls"] show ?thesis by simp
qed









section \<open>The two loops and their fence flags\<close>



lemma process_lines_inside:
  "\<forall>x\<in>set body. \<not> is_code_fence x \<Longrightarrow>
   process_lines True (body @ after) = body @ process_lines True after"
  by (induction body) auto



section \<open>Fenced lines and the pre-passes\<close>

text \<open>
  C1: every line between a fence line and its matching fence line reaches the output as
  it is in the input. The loop of the pipeline keeps such lines (lemma
  \<open>process_lines_inside\<close>), but the two pre-passes run before it and do not look at
  fences: in the first document the bulleted line inside the fence is renumbered by the
  list unifier, in the second the line inside the fence is removed by the expansion of
  collapsible blocks.
\<close>

theorem fenced_lines_changed_by_pre_passes:
  "simplify_markdown_file fenced_list_document =
     U ''1. a'' @ [10] @ U ''   ```'' @ [10] @ U ''   1. b'' @ [10] @ U ''   ```''
   \<and> simplify_markdown_file fenced_details_document = U ''```'' @ [10] @ U ''```''"
  by code_simp

section \<open>The end of the output file\<close>

text \<open>
  C10 (as stated): the output of the rewrite pipeline never ends with a newline
  character. It does when the input ends with a blank line: the last processed line is
  then empty, and the delimiter before it ends the file.
\<close>

theorem output_can_end_with_newline:
  "simplify_markdown_file (U ''a'' @ [10, 10]) = U ''a'' @ [10]"
  by code_simp

text \<open>
  C10 (amended): the pipeline strips the trailing newline characters of every line it
  reads and writes the processed lines joined by a single newline, with nothing behind the
  last line. No processed line holds a newline, so a non-empty output ends with a newline
  character exactly when the last processed line is empty; a last line with text ends the
  file without one, even when the input ended with a newline.
\<close>

theorem output_ends_with_last_line:
  assumes "simplify_markdown_file t \<noteq> []"
  shows "(last (simplify_markdown_file t) = 10 \<longleftrightarrow> last (processed_lines t) = [])
         \<and> simplify_markdown_file t = join [10] (processed_lines t)
         \<and> (\<forall>l\<in>set (processed_lines t). 10 \<notin> set l)"
proof -
  define ls where "ls = processed_lines t"
  have out: "simplify_markdown_file t = join [10] ls"
    unfolding simplify_markdown_file_def ls_def processed_lines_def ..
  with assms have ne: "ls \<noteq> []" by auto
  have nl: "10 \<notin> set l" if "l \<in> set ls" for l
    using that processed_lines_no_newline [of l t] unfolding ls_def by simp
  have lastnl: "last (last ls) \<noteq> 10" if "last ls \<noteq> []"
  proof -
    from ne have "last ls \<in> set ls" by simp
    then have "10 \<notin> set (last ls)" by (rule nl)
    moreover from that have "last (last ls) \<in> set (last ls)" by simp
    ultimately show ?thesis by auto
  qed
  have "last (join [10] ls) = 10 \<longleftrightarrow> last ls = []"
  proof (cases "butlast ls = []")
    case True
    with join_last [OF ne, of "[10]"] have j: "join [10] ls = last ls" by simp
    with assms out have "last ls \<noteq> []" by simp
    with j lastnl show ?thesis by simp
  next
    case False
    with join_last [OF ne, of "[10]"]
    have j: "join [10] ls = join [10] (butlast ls) @ [10] @ last ls" by simp
    show ?thesis
    proof (cases "last ls = []")
      case True
      with j show ?thesis by simp
    next
      case False
      with j lastnl show ?thesis by simp
    qed
  qed
  with out nl show ?thesis unfolding ls_def by simp
qed

theorem output_ends_with_last_line_witness:
  "simplify_markdown_file (U ''a'' @ [10, 10]) \<noteq> []
   \<and> last (simplify_markdown_file (U ''a'' @ [10, 10])) = 10
   \<and> last (processed_lines (U ''a'' @ [10, 10])) = []
   \<and> simplify_markdown_file (U ''a'' @ [10]) \<noteq> []
   \<and> last (simplify_markdown_file (U ''a'' @ [10])) \<noteq> 10
   \<and> last (processed_lines (U ''a'' @ [10])) \<noteq> []"
proof -
  have h1: "simplify_markdown_file (U ''a'' @ [10, 10]) \<noteq> []" by code_simp
  have e1: "last (processed_lines (U ''a'' @ [10, 10])) = []" by code_simp
  have h2: "simplify_markdown_file (U ''a'' @ [10]) \<noteq> []" by code_simp
  have e2: "last (processed_lines (U ''a'' @ [10])) \<noteq> []" by code_simp
  show ?thesis
    using h1 e1 h2 e2 output_ends_with_last_line [OF h1] output_ends_with_last_line [OF h2]
    by blast
qed


section \<open>Running the pipeline twice\<close>





section \<open>The section split scenario\<close>

text \<open>
  C4 (as stated): the scenario document, split for the source file \<^verbatim>\<open>01_course.md\<close>,
  yields exactly two sections. It does not: the text before the first second-level
  heading is a section of its own, so the document has three sections.
\<close>

theorem split_scenario_not_two_sections:
  "length (parse_markdown_file split_scenario) \<noteq> 2"
  by code_simp

lemma split_scenario_sections:
  "parse_markdown_file split_scenario =
     [[U ''# Title'' @ [10], [10], U ''Intro'' @ [10], [10]],
      [U ''## A'' @ [10], U ''body A'' @ [10], [10]],
      [U ''## B'' @ [10], U ''body B'' @ [10]]]"
  by code_simp

text \<open>No line of the scenario holds a link, whatever the replacement function is.\<close>

lemma split_scenario_no_links:
  "re_sub_fn True markdown_link_pattern f (U ''# Title'' @ [10]) = U ''# Title'' @ [10]"
  "re_sub_fn True markdown_link_pattern f [10] = [10]"
  "re_sub_fn True markdown_link_pattern f (U ''Intro'' @ [10]) = U ''Intro'' @ [10]"
  "re_sub_fn True markdown_link_pattern f (U ''## A'' @ [10]) = U ''## A'' @ [10]"
  "re_sub_fn True markdown_link_pattern f (U ''body A'' @ [10]) = U ''body A'' @ [10]"
  "re_sub_fn True markdown_link_pattern f (U ''## B'' @ [10]) = U ''## B'' @ [10]"
  "re_sub_fn True markdown_link_pattern f (U ''body B'' @ [10]) = U ''body B'' @ [10]"
  by code_simp+

lemma split_scenario_names:
  "extract_file_prefix (U ''01_course.md'') = U ''01''"
  "section_filename (U ''01'') (Suc 0) = U ''01_01.md''"
  "section_filename (U ''01'') (Suc (Suc 0)) = U ''01_02.md''"
  "section_filename (U ''01'') (Suc (Suc (Suc 0))) = U ''01_03.md''"
  by code_simp+

text \<open>
  C4 (amended): the scenario document yields exactly three sections, the title and
  introduction, the section of heading A and the section of heading B, written in this
  order to the files \<^verbatim>\<open>01_01.md\<close>, \<^verbatim>\<open>01_02.md\<close> and \<^verbatim>\<open>01_03.md\<close>, whatever the
  depth \<^verbatim>\<open>levels_up\<close> of the target directory below the source directory is.
\<close>

theorem split_scenario_three_files:
  "split_file (U ''01_course.md'') split_scenario levels_up =
     [(U ''01_01.md'', U ''# Title'' @ [10, 10] @ U ''Intro'' @ [10, 10]),
      (U ''01_02.md'', U ''## A'' @ [10] @ U ''body A'' @ [10, 10]),
      (U ''01_03.md'', U ''## B'' @ [10] @ U ''body B'' @ [10])]"
proof -
  have idx: "[1 ..< 4] = [1, 2, 3::nat]"
    by (simp add: upt_rec)
  show ?thesis
    unfolding split_file_def save_sections_def split_scenario_sections
    by (simp add: idx split_scenario_names adjust_relative_path_def split_scenario_no_links)
qed


section \<open>Line delimiters of the output\<close>




section \<open>Totality of the rules and removal of lines\<close>




section \<open>Fence tokens of the two tools\<close>



end
